theory Spec2Isabelle
  imports Complex_Main "HOL-Library.Word"
begin

section \<open>Strings and dynamic values\<close>

text \<open>
  A Go string is modelled by the sequence of Unicode code points that a \<open>range\<close> loop
  or the \<open>regexp\<close> package sees when it decodes the string. Literals of the source
  are written \<open>str ''...''\<close>.
\<close>

type_synonym rune = nat
type_synonym gostring = "rune list"

definition str :: "string \<Rightarrow> gostring" where
  "str s = map of_char s"

text \<open>
  A value of Go's \<open>any\<close>, as far as the modelled code handles one: JSON-like data.
  A field of type \<open>any\<close> that may be nil is an option, and a nil value inside a list or
  a map is \<open>ANull\<close>; a \<open>map[string]any\<close> is an association list read with
  \<open>map_of\<close> (a nil map has no keys, as the empty one).
\<close>

datatype anyval =
    ANull
  | AString gostring
  | ANumber int
  | ABool bool
  | AList "anyval list"
  | AMap "(gostring \<times> anyval) list"

type_synonym gomap = "(gostring \<times> anyval) list"

text \<open>A \<open>float64\<close> is carried as its bit pattern; no arithmetic on it is modelled.\<close>

datatype float64 = Float64 (bits: "64 word")

section \<open>pkg/ai/eventstream.go\<close>

text \<open>
  \<open>EventStream[T, R]\<close>: \<open>ch\<close> is the buffered event channel (capacity 64) with its
  closed flag, \<open>once\<close> the \<open>sync.Once\<close> guarding the close, \<open>resultCh\<close> the result
  channel of capacity 1 (\<open>None\<close> when empty).
\<close>

record ('t, 'r) EventStream =
  ch :: "'t list"
  ch_closed :: bool
  once :: bool
  resultCh :: "'r option"
  isComplete :: "'t \<Rightarrow> bool"
  extractResult :: "'t \<Rightarrow> 'r"

text \<open>
  What a call on a channel-backed object does in a sequential step: it returns, it blocks
  (until another goroutine acts on the channel), or it panics. \<open>Blocks\<close> and
  \<open>Panics\<close> carry the state reached at that point.
\<close>

datatype ('s, 'a) outcome = Returns 's 'a | Blocks 's | Panics 's

definition NewEventStream :: "('t \<Rightarrow> bool) \<Rightarrow> ('t \<Rightarrow> 'r) \<Rightarrow> ('t, 'r) EventStream" where
  "NewEventStream isc ext =
     \<lparr>ch = [], ch_closed = False, once = False, resultCh = None,
      isComplete = isc, extractResult = ext\<rparr>"

definition once_Do_close :: "('t, 'r) EventStream \<Rightarrow> (('t, 'r) EventStream, unit) outcome" where
  \<comment> \<open>\<open>s.once.Do(func() { close(s.ch) })\<close>; closing a closed channel panics.\<close>
  "once_Do_close s =
     (if once s then Returns s ()
      else if ch_closed s then Panics (s\<lparr>once := True\<rparr>)
      else Returns (s\<lparr>once := True, ch_closed := True\<rparr>) ())"

definition chan_send :: "('t, 'r) EventStream \<Rightarrow> 't \<Rightarrow> (('t, 'r) EventStream, unit) outcome" where
  \<comment> \<open>\<open>s.ch <- event\<close> on the channel of capacity 64.\<close>
  "chan_send s e =
     (if ch_closed s then Panics s
      else if length (ch s) < 64 then Returns (s\<lparr>ch := ch s @ [e]\<rparr>) ()
      else Blocks s)"

definition Push :: "('t, 'r) EventStream \<Rightarrow> 't \<Rightarrow> (('t, 'r) EventStream, unit) outcome" where
  "Push s event =
     (if isComplete s event \<and> resultCh s \<noteq> None then Blocks s
      else
        let s1 = (if isComplete s event
                  then s\<lparr>resultCh := Some (extractResult s event)\<rparr> else s)
        in case chan_send s1 event of
             Returns s2 _ \<Rightarrow> (if isComplete s2 event then once_Do_close s2 else Returns s2 ())
           | Blocks s2 \<Rightarrow> Blocks s2
           | Panics s2 \<Rightarrow> Panics s2)"

definition End :: "('t, 'r) EventStream \<Rightarrow> 'r \<Rightarrow> (('t, 'r) EventStream, unit) outcome" where
  "End s result =
     (let s1 = (case resultCh s of None \<Rightarrow> s\<lparr>resultCh := Some result\<rparr> | Some _ \<Rightarrow> s)
      in once_Do_close s1)"

definition Result :: "('t, 'r) EventStream \<Rightarrow> (('t, 'r) EventStream, 'r) outcome" where
  \<comment> \<open>\<open>return <-s.resultCh\<close>: the receive takes the value out of the channel.\<close>
  "Result s =
     (case resultCh s of
        None \<Rightarrow> Blocks s
      | Some r \<Rightarrow> Returns (s\<lparr>resultCh := None\<rparr>) r)"

fun state_of :: "('s, 'a) outcome \<Rightarrow> 's" where
  "state_of (Returns s _) = s"
| "state_of (Blocks s) = s"
| "state_of (Panics s) = s"

fun returned :: "('s, 'a) outcome \<Rightarrow> 'a option" where
  "returned (Returns _ a) = Some a"
| "returned (Blocks _) = None"
| "returned (Panics _) = None"

text \<open>A run of further \<open>End\<close> calls, each made on the state the one before left.\<close>

definition later_Ends :: "('t, 'r) EventStream \<Rightarrow> 'r list \<Rightarrow> ('t, 'r) EventStream" where
  "later_Ends s rs = foldl (\<lambda>t r. state_of (End t r)) s rs"

section \<open>pkg/ai: content, messages, tools, models\<close>

record TextContent =
  text_Type :: gostring
  text_Text :: gostring
  text_TextSignature :: gostring

record ThinkingContent =
  thinking_Type :: gostring
  thinking_Thinking :: gostring
  thinking_ThinkingSignature :: gostring

record ImageContent =
  image_Type :: gostring
  image_Data :: gostring
  image_MimeType :: gostring

record ToolCall =
  tc_Type :: gostring
  tc_ID :: gostring
  tc_Name :: gostring
  tc_Arguments :: gomap
  tc_ThoughtSignature :: gostring

text \<open>A pointer field is an option: \<open>None\<close> is the nil pointer.\<close>

record Content =
  c_Text :: "TextContent option"
  c_Thinking :: "ThinkingContent option"
  c_Image :: "ImageContent option"
  c_ToolCall :: "ToolCall option"

definition ContentText :: gostring where "ContentText = str ''text''"
definition ContentThinking :: gostring where "ContentThinking = str ''thinking''"
definition ContentImage :: gostring where "ContentImage = str ''image''"
definition ContentToolCall :: gostring where "ContentToolCall = str ''toolCall''"

definition NewTextContent :: "gostring \<Rightarrow> Content" where
  "NewTextContent text =
     \<lparr>c_Text = Some \<lparr>text_Type = ContentText, text_Text = text, text_TextSignature = []\<rparr>,
      c_Thinking = None, c_Image = None, c_ToolCall = None\<rparr>"

definition NewToolCallContent :: "gostring \<Rightarrow> gostring \<Rightarrow> gomap \<Rightarrow> Content" where
  "NewToolCallContent tid name args =
     \<lparr>c_Text = None, c_Thinking = None, c_Image = None,
      c_ToolCall = Some \<lparr>tc_Type = ContentToolCall, tc_ID = tid, tc_Name = name,
                          tc_Arguments = args, tc_ThoughtSignature = []\<rparr>\<rparr>"

record Cost =
  cost_Input :: float64
  cost_Output :: float64
  cost_CacheRead :: float64
  cost_CacheWrite :: float64
  cost_Total :: float64

text \<open>
  Go's \<open>int\<close> on a 64-bit platform: a 64-bit word read as two's complement
  (\<open>sint\<close>); \<open>+\<close> wraps, comparisons are the signed ones.
\<close>

type_synonym goint = "64 word"

record Usage =
  usage_Input :: goint
  usage_Output :: goint
  usage_CacheRead :: goint
  usage_CacheWrite :: goint
  usage_TotalTokens :: goint
  usage_Cost :: Cost

definition zero_Cost :: Cost where
  "zero_Cost = \<lparr>cost_Input = Float64 0, cost_Output = Float64 0, cost_CacheRead = Float64 0,
                 cost_CacheWrite = Float64 0, cost_Total = Float64 0\<rparr>"

definition zero_Usage :: Usage where
  "zero_Usage = \<lparr>usage_Input = 0, usage_Output = 0, usage_CacheRead = 0,
                  usage_CacheWrite = 0, usage_TotalTokens = 0, usage_Cost = zero_Cost\<rparr>"

definition StopReasonStop :: gostring where "StopReasonStop = str ''stop''"
definition StopReasonLength :: gostring where "StopReasonLength = str ''length''"
definition StopReasonToolUse :: gostring where "StopReasonToolUse = str ''toolUse''"
definition StopReasonError :: gostring where "StopReasonError = str ''error''"
definition StopReasonAborted :: gostring where "StopReasonAborted = str ''aborted''"

definition RoleUser :: gostring where "RoleUser = str ''user''"
definition RoleAssistant :: gostring where "RoleAssistant = str ''assistant''"
definition RoleToolResult :: gostring where "RoleToolResult = str ''toolResult''"

record UserMessage =
  um_Role :: gostring
  um_Content :: "Content list"
  um_Timestamp :: int

record AssistantMessage =
  am_Role :: gostring
  am_Content :: "Content list"
  am_Api :: gostring
  am_Provider :: gostring
  am_Model :: gostring
  am_Usage :: Usage
  am_StopReason :: gostring
  am_ErrorMessage :: gostring
  am_Timestamp :: int

record ToolResultMessage =
  tr_Role :: gostring
  tr_ToolCallID :: gostring
  tr_ToolName :: gostring
  tr_Content :: "Content list"
  tr_Details :: "anyval option"
  tr_IsError :: bool
  tr_Timestamp :: int

record Message =
  m_User :: "UserMessage option"
  m_Assistant :: "AssistantMessage option"
  m_ToolResult :: "ToolResultMessage option"

definition Role :: "Message \<Rightarrow> gostring" where
  "Role m =
     (if m_User m \<noteq> None then RoleUser
      else if m_Assistant m \<noteq> None then RoleAssistant
      else if m_ToolResult m \<noteq> None then RoleToolResult
      else [])"

definition msg_User :: "UserMessage \<Rightarrow> Message" where
  \<comment> \<open>\<open>ai.Message{User: &u}\<close>\<close>
  "msg_User u = \<lparr>m_User = Some u, m_Assistant = None, m_ToolResult = None\<rparr>"

definition msg_Assistant :: "AssistantMessage option \<Rightarrow> Message" where
  \<comment> \<open>\<open>ai.Message{Assistant: p}\<close>, for a pointer \<open>p\<close> that may be nil\<close>
  "msg_Assistant p = \<lparr>m_User = None, m_Assistant = p, m_ToolResult = None\<rparr>"

definition msg_ToolResult :: "ToolResultMessage \<Rightarrow> Message" where
  \<comment> \<open>\<open>ai.Message{ToolResult: &r}\<close>\<close>
  "msg_ToolResult r = \<lparr>m_User = None, m_Assistant = None, m_ToolResult = Some r\<rparr>"

record Tool =
  tool_Name :: gostring
  tool_Description :: gostring
  tool_Parameters :: gomap

record Context =
  llm_SystemPrompt :: gostring
  llm_Messages :: "Message list"
  llm_Tools :: "Tool list"

record ModelCost =
  mc_Input :: float64
  mc_Output :: float64
  mc_CacheRead :: float64
  mc_CacheWrite :: float64

record Model =
  model_ID :: gostring
  model_Name :: gostring
  model_Api :: gostring
  model_Provider :: gostring
  model_BaseURL :: gostring
  model_Reasoning :: bool
  model_Input :: "gostring list"
  model_Cost :: ModelCost
  model_ContextWindow :: goint
  model_MaxTokens :: goint
  model_Headers :: "(gostring \<times> gostring) list"

record ThinkingBudgets =
  tb_Minimal :: "goint option"
  tb_Low :: "goint option"
  tb_Medium :: "goint option"
  tb_High :: "goint option"

record StreamOptions =
  so_Temperature :: "float64 option"
  so_MaxTokens :: "goint option"
  so_ApiKey :: gostring
  so_CacheRetention :: gostring
  so_SessionID :: gostring
  so_Headers :: "(gostring \<times> gostring) list"
  so_MaxRetryDelayMs :: "goint option"

record SimpleStreamOptions =
  sso_StreamOptions :: StreamOptions
  sso_Reasoning :: gostring
  sso_ThinkingBudgets :: "ThinkingBudgets option"

definition EventStart :: gostring where "EventStart = str ''start''"
definition EventTextStart :: gostring where "EventTextStart = str ''text_start''"
definition EventTextDelta :: gostring where "EventTextDelta = str ''text_delta''"
definition EventTextEnd :: gostring where "EventTextEnd = str ''text_end''"
definition EventThinkingStart :: gostring where "EventThinkingStart = str ''thinking_start''"
definition EventThinkingDelta :: gostring where "EventThinkingDelta = str ''thinking_delta''"
definition EventThinkingEnd :: gostring where "EventThinkingEnd = str ''thinking_end''"
definition EventToolCallStart :: gostring where "EventToolCallStart = str ''toolcall_start''"
definition EventToolCallDelta :: gostring where "EventToolCallDelta = str ''toolcall_delta''"
definition EventToolCallEnd :: gostring where "EventToolCallEnd = str ''toolcall_end''"
definition EventDone :: gostring where "EventDone = str ''done''"
definition EventError :: gostring where "EventError = str ''error''"

record AssistantMessageEvent =
  ame_Type :: gostring
  ame_ContentIndex :: goint
  ame_Delta :: gostring
  ame_Content :: gostring
  ame_Partial :: "AssistantMessage option"
  ame_Message :: "AssistantMessage option"
  ame_Error :: "AssistantMessage option"
  ame_ToolCallData :: "ToolCall option"
  ame_Reason :: gostring

text \<open>\<open>NewAssistantMessageEventStream\<close>: terminal events and the result they carry.\<close>

definition ame_isComplete :: "AssistantMessageEvent \<Rightarrow> bool" where
  "ame_isComplete e \<longleftrightarrow> ame_Type e = EventDone \<or> ame_Type e = EventError"

definition ame_extractResult :: "AssistantMessageEvent \<Rightarrow> AssistantMessage option" where
  "ame_extractResult e =
     (if ame_Type e = EventDone then ame_Message e
      else if ame_Type e = EventError then ame_Error e
      else None)"

definition NewAssistantMessageEventStream ::
  "(AssistantMessageEvent, AssistantMessage option) EventStream" where
  "NewAssistantMessageEventStream = NewEventStream ame_isComplete ame_extractResult"

section \<open>pkg/agent/types.go\<close>

text \<open>
  A Go \<open>error\<close> is \<open>None\<close> when nil and otherwise carries the text of \<open>Error()\<close>.
  A function that returns \<open>(v, err)\<close> returns the pair, as in Go.

  Callbacks supplied by the host (hooks, tools, the stream function, the queue providers)
  act on a world \<open>'w\<close> that they may read and change: the world holds whatever lies
  outside the loop, the cancellation context included.
\<close>

type_synonym goerror = "gostring option"

record AgentMessage =
  agm_Message :: Message
  agm_Custom :: "anyval option"

definition NewAgentMessageFromMessage :: "Message \<Rightarrow> AgentMessage" where
  "NewAgentMessageFromMessage m = \<lparr>agm_Message = m, agm_Custom = None\<rparr>"

definition IsLLMMessage :: "AgentMessage \<Rightarrow> bool" where
  "IsLLMMessage m \<longleftrightarrow> agm_Custom m = None \<and> Role (agm_Message m) \<noteq> []"

record AgentToolResult =
  atr_Content :: "Content list"
  atr_Details :: "anyval option"

text \<open>
  \<open>Execute\<close> of a tool: from the tool-call id and the validated arguments, the partial
  results it hands to \<open>onUpdate\<close> while it runs (in order), and what it returns.
\<close>

type_synonym 'w ExecuteFn =
  "gostring \<Rightarrow> gomap \<Rightarrow> 'w \<Rightarrow> (AgentToolResult list \<times> AgentToolResult \<times> goerror) \<times> 'w"

record 'w AgentTool =
  at_Tool :: Tool
  at_Label :: gostring
  at_Execute :: "'w ExecuteFn"

record 'w AgentContext =
  ctx_SystemPrompt :: gostring
  ctx_Messages :: "AgentMessage list"
  ctx_Tools :: "'w AgentTool list"

record 'w AgentState =
  st_SystemPrompt :: gostring
  st_Model :: "Model option"
  st_ThinkingLevel :: gostring
  st_Tools :: "'w AgentTool list"
  st_Messages :: "AgentMessage list"
  st_IsStreaming :: bool
  st_StreamMessage :: "AgentMessage option"
  st_PendingToolCalls :: "gostring set"
  st_Error :: gostring

definition AgentEventStart :: gostring where "AgentEventStart = str ''agent_start''"
definition AgentEventEnd :: gostring where "AgentEventEnd = str ''agent_end''"
definition TurnEventStart :: gostring where "TurnEventStart = str ''turn_start''"
definition TurnEventEnd :: gostring where "TurnEventEnd = str ''turn_end''"
definition MessageEventStart :: gostring where "MessageEventStart = str ''message_start''"
definition MessageEventUpdate :: gostring where "MessageEventUpdate = str ''message_update''"
definition MessageEventEnd :: gostring where "MessageEventEnd = str ''message_end''"
definition ToolExecutionEventStart :: gostring where
  "ToolExecutionEventStart = str ''tool_execution_start''"
definition ToolExecutionEventUpdate :: gostring where
  "ToolExecutionEventUpdate = str ''tool_execution_update''"
definition ToolExecutionEventEnd :: gostring where
  "ToolExecutionEventEnd = str ''tool_execution_end''"

record AgentEvent =
  ev_Type :: gostring
  ev_Messages :: "AgentMessage list"
  ev_Message :: "AgentMessage option"
  ev_AssistantMessageEvent :: "AssistantMessageEvent option"
  ev_ToolResults :: "ToolResultMessage list"
  ev_ToolCallID :: gostring
  ev_ToolName :: gostring
  ev_Args :: "gomap option"
  ev_PartialResult :: "AgentToolResult option"
  ev_Result :: "AgentToolResult option"
  ev_IsError :: bool

definition AgentEvent0 :: "gostring \<Rightarrow> AgentEvent" where
  \<comment> \<open>\<open>AgentEvent{Type: t}\<close>: every other field has its zero value.\<close>
  "AgentEvent0 t =
     \<lparr>ev_Type = t, ev_Messages = [], ev_Message = None, ev_AssistantMessageEvent = None,
      ev_ToolResults = [], ev_ToolCallID = [], ev_ToolName = [], ev_Args = None,
      ev_PartialResult = None, ev_Result = None, ev_IsError = False\<rparr>"

definition NewAgentEventStream :: "(AgentEvent, AgentMessage list) EventStream" where
  "NewAgentEventStream = NewEventStream (\<lambda>e. ev_Type e = AgentEventEnd) (\<lambda>e. ev_Messages e)"

text \<open>
  What a stream function hands back, as its consumer sees it: the events received from
  \<open>Events()\<close>, whether the channel is closed after them (if not, a consumer that has
  read them all waits for ever), and what \<open>Result()\<close> returns when called (\<open>None\<close>: it
  never returns; \<open>Some p\<close>: the pointer \<open>p\<close>, which may be nil). With a stream made by
  \<open>NewAssistantMessageEventStream\<close>, the result seen after a terminal event is what
  \<open>Push\<close> extracted from that event.
\<close>

record Response =
  rs_Events :: "AssistantMessageEvent list"
  rs_Closed :: bool
  rs_Result :: "AssistantMessage option option"

type_synonym 'w StreamFn =
  "Model \<Rightarrow> Context \<Rightarrow> SimpleStreamOptions \<Rightarrow> 'w \<Rightarrow> Response option \<times> 'w"

type_synonym 'w ConvertFn = "AgentMessage list \<Rightarrow> 'w \<Rightarrow> (Message list \<times> goerror) \<times> 'w"
type_synonym 'w TransformFn =
  "AgentMessage list \<Rightarrow> 'w \<Rightarrow> (AgentMessage list \<times> goerror) \<times> 'w"
type_synonym 'w ApiKeyFn = "gostring \<Rightarrow> 'w \<Rightarrow> (gostring \<times> goerror) \<times> 'w"
type_synonym 'w QueueFn = "'w \<Rightarrow> (AgentMessage list \<times> goerror) \<times> 'w"

text \<open>A function-typed field that may be nil is an option.\<close>

record 'w AgentLoopConfig =
  cfg_SimpleStreamOptions :: SimpleStreamOptions
  cfg_Model :: Model
  cfg_ConvertToLLM :: "'w ConvertFn option"
  cfg_TransformContext :: "'w TransformFn option"
  cfg_GetApiKey :: "'w ApiKeyFn option"
  cfg_GetSteeringMessages :: "'w QueueFn option"
  cfg_GetFollowUpMessages :: "'w QueueFn option"

section \<open>pkg/agent/agent.go\<close>

definition DefaultConvertToLLM :: "AgentMessage list \<Rightarrow> Message list \<times> goerror" where
  "DefaultConvertToLLM messages =
     (map agm_Message
        (filter (\<lambda>m. let r = Role (agm_Message m)
                      in r = RoleUser \<or> r = RoleAssistant \<or> r = RoleToolResult) messages),
      None)"

text \<open>
  The facade. A cancellation context is named by a number; \<open>abortCancel\<close> holds the
  context its \<open>CancelFunc\<close> cancels, and the set of cancelled contexts lives outside the
  struct. \<open>running\<close> likewise names the channel. The mutex is not modelled: every
  method body below runs inside one critical section.
\<close>

type_synonym ctxid = nat
type_synonym 'w Listener = "AgentEvent \<Rightarrow> 'w \<Rightarrow> 'w"

record 'w Agent =
  state :: "'w AgentState"
  listeners :: "int \<rightharpoonup> 'w Listener"
  nextListenerID :: int
  abortCancel :: "ctxid option"
  abortCtx :: "ctxid option"
  convertToLLM :: "'w ConvertFn option"
  transformContext :: "'w TransformFn option"
  steeringQueue :: "AgentMessage list"
  followUpQueue :: "AgentMessage list"
  steeringMode :: gostring
  followUpMode :: gostring
  agent_StreamFn :: "'w StreamFn option"
  sessionID :: gostring
  agent_GetApiKey :: "'w ApiKeyFn option"
  thinkingBudgets :: "ThinkingBudgets option"
  maxRetryDelayMs :: "goint option"
  running :: "nat option"

record 'w AgentOptions =
  opt_InitialState :: "'w AgentState option"
  opt_ConvertToLLM :: "'w ConvertFn option"
  opt_TransformContext :: "'w TransformFn option"
  opt_SteeringMode :: gostring
  opt_FollowUpMode :: gostring
  opt_StreamFn :: "'w StreamFn option"
  opt_SessionID :: gostring
  opt_GetApiKey :: "'w ApiKeyFn option"
  opt_ThinkingBudgets :: "ThinkingBudgets option"
  opt_MaxRetryDelayMs :: "goint option"

definition ThinkingOff :: gostring where "ThinkingOff = str ''off''"

definition NewAgent :: "'w AgentOptions \<Rightarrow> 'w Agent" where
  "NewAgent opts =
     \<lparr>state = (case opt_InitialState opts of
                 None \<Rightarrow> \<lparr>st_SystemPrompt = [], st_Model = None, st_ThinkingLevel = ThinkingOff,
                           st_Tools = [], st_Messages = [], st_IsStreaming = False,
                           st_StreamMessage = None, st_PendingToolCalls = {}, st_Error = []\<rparr>
               | Some st \<Rightarrow> st),
      listeners = Map.empty,
      nextListenerID = 0,
      abortCancel = None,
      abortCtx = None,
      convertToLLM = (case opt_ConvertToLLM opts of
                        None \<Rightarrow> Some (\<lambda>ms w. (DefaultConvertToLLM ms, w))
                      | Some f \<Rightarrow> Some f),
      transformContext = opt_TransformContext opts,
      steeringQueue = [],
      followUpQueue = [],
      steeringMode = (if opt_SteeringMode opts \<noteq> [] then opt_SteeringMode opts
                      else str ''one-at-a-time''),
      followUpMode = (if opt_FollowUpMode opts \<noteq> [] then opt_FollowUpMode opts
                      else str ''one-at-a-time''),
      agent_StreamFn = opt_StreamFn opts,
      sessionID = opt_SessionID opts,
      agent_GetApiKey = opt_GetApiKey opts,
      thinkingBudgets = opt_ThinkingBudgets opts,
      maxRetryDelayMs = opt_MaxRetryDelayMs opts,
      running = None\<rparr>"

definition Subscribe :: "'w Agent \<Rightarrow> 'w Listener \<Rightarrow> 'w Agent \<times> int" where
  \<comment> \<open>returns the id that the unsubscribe closure captures\<close>
  "Subscribe a fn =
     (let id' = nextListenerID a
      in (a\<lparr>nextListenerID := id' + 1, listeners := (listeners a)(id' \<mapsto> fn)\<rparr>, id'))"

definition Unsubscribe :: "'w Agent \<Rightarrow> int \<Rightarrow> 'w Agent" where
  \<comment> \<open>the closure returned by \<open>Subscribe\<close>: \<open>delete(a.listeners, id)\<close>\<close>
  "Unsubscribe a id' = a\<lparr>listeners := (listeners a)(id' := None)\<rparr>"

definition Steer :: "'w Agent \<Rightarrow> AgentMessage \<Rightarrow> 'w Agent" where
  "Steer a m = a\<lparr>steeringQueue := steeringQueue a @ [m]\<rparr>"

definition FollowUp :: "'w Agent \<Rightarrow> AgentMessage \<Rightarrow> 'w Agent" where
  "FollowUp a m = a\<lparr>followUpQueue := followUpQueue a @ [m]\<rparr>"

definition Abort :: "'w Agent \<Rightarrow> ctxid set \<Rightarrow> 'w Agent \<times> ctxid set" where
  \<comment> \<open>the second component is the set of cancelled contexts\<close>
  "Abort a cancelled =
     (case abortCancel a of
        None \<Rightarrow> (a, cancelled)
      | Some c \<Rightarrow> (a, insert c cancelled))"

definition dequeueSteeringMessages :: "'w Agent \<Rightarrow> AgentMessage list \<times> 'w Agent" where
  "dequeueSteeringMessages a =
     (if steeringMode a = str ''one-at-a-time'' then
        (case steeringQueue a of
           first # rest \<Rightarrow> ([first], a\<lparr>steeringQueue := rest\<rparr>)
         | [] \<Rightarrow> ([], a))
      else (steeringQueue a, a\<lparr>steeringQueue := []\<rparr>))"

definition dequeueFollowUpMessages :: "'w Agent \<Rightarrow> AgentMessage list \<times> 'w Agent" where
  "dequeueFollowUpMessages a =
     (if followUpMode a = str ''one-at-a-time'' then
        (case followUpQueue a of
           first # rest \<Rightarrow> ([first], a\<lparr>followUpQueue := rest\<rparr>)
         | [] \<Rightarrow> ([], a))
      else (followUpQueue a, a\<lparr>followUpQueue := []\<rparr>))"

text \<open>
  Listener dispatch (the end of the observer loop in \<open>Agent.runLoop\<close>). A \<open>range\<close>
  over a Go map visits every entry once, in an order the language leaves unspecified:
  \<open>range_order m ks\<close> says that \<open>ks\<close> is such an order of the keys of \<open>m\<close>. The snapshot
  is the slice filled in that order; the listeners are then called in slice order.
\<close>

definition range_order :: "('k \<rightharpoonup> 'v) \<Rightarrow> 'k list \<Rightarrow> bool" where
  "range_order m ks \<longleftrightarrow> distinct ks \<and> set ks = dom m"

definition snapshotListeners :: "'w Agent \<Rightarrow> int list \<Rightarrow> 'w Listener list" where
  "snapshotListeners a ks = List.map_filter (listeners a) ks"

definition invokeListeners :: "'w Listener list \<Rightarrow> AgentEvent \<Rightarrow> 'w \<Rightarrow> 'w" where
  "invokeListeners fns event w = fold (\<lambda>fn. fn event) fns w"

definition emitToListeners :: "'w Agent \<Rightarrow> AgentEvent \<Rightarrow> int list \<Rightarrow> 'w \<Rightarrow> 'w" where
  "emitToListeners a event ks w = invokeListeners (snapshotListeners a ks) event w"

section \<open>pkg/ai/jsonparse.go\<close>

text \<open>
  \<open>unicode.IsSpace\<close>, which \<open>strings.TrimSpace\<close> trims by: the runes with the
  Unicode property White_Space.
\<close>

definition IsSpace :: "rune \<Rightarrow> bool" where
  "IsSpace c \<longleftrightarrow>
     (9 \<le> c \<and> c \<le> 13) \<or> c = 32 \<or> c = 133 \<or> c = 160 \<or> c = 5760
     \<or> (8192 \<le> c \<and> c \<le> 8202) \<or> c = 8232 \<or> c = 8233 \<or> c = 8239 \<or> c = 8287
     \<or> c = 12288"

definition TrimSpace :: "gostring \<Rightarrow> gostring" where
  "TrimSpace s = rev (dropWhile IsSpace (rev (dropWhile IsSpace s)))"

definition TrimRight :: "gostring \<Rightarrow> gostring \<Rightarrow> gostring" where
  \<comment> \<open>\<open>strings.TrimRight(s, cutset)\<close>\<close>
  "TrimRight s cutset = rev (dropWhile (\<lambda>c. c \<in> set cutset) (rev s))"

definition TrimSuffix :: "gostring \<Rightarrow> gostring \<Rightarrow> gostring" where
  \<comment> \<open>\<open>strings.TrimSuffix(s, suffix)\<close>\<close>
  "TrimSuffix s suffix =
     (if length suffix \<le> length s \<and> drop (length s - length suffix) s = suffix
      then take (length s - length suffix) s else s)"

text \<open>The counters and flags of the scan in \<open>tryRepairAndParse\<close>, and one pass of its body.\<close>

record scan =
  openBraces :: int
  openBrackets :: int
  inString :: bool
  escaped :: bool

definition scan_step :: "scan \<Rightarrow> rune \<Rightarrow> scan" where
  "scan_step st c =
     (if escaped st then st\<lparr>escaped := False\<rparr>
      else if c = 92 \<and> inString st then st\<lparr>escaped := True\<rparr>
      else if c = 34 then st\<lparr>inString := \<not> inString st\<rparr>
      else if inString st then st
      else if c = 123 then st\<lparr>openBraces := openBraces st + 1\<rparr>
      else if c = 125 then st\<lparr>openBraces := openBraces st - 1\<rparr>
      else if c = 91 then st\<lparr>openBrackets := openBrackets st + 1\<rparr>
      else if c = 93 then st\<lparr>openBrackets := openBrackets st - 1\<rparr>
      else st)"

definition scan_all :: "gostring \<Rightarrow> scan" where
  "scan_all s =
     foldl scan_step \<lparr>openBraces = 0, openBrackets = 0, inString = False, escaped = False\<rparr> s"

text \<open>\<open>for n > 0 { trimmed += c; n-- }\<close>\<close>

function close_open :: "int \<Rightarrow> rune \<Rightarrow> gostring \<Rightarrow> gostring" where
  "close_open n c trimmed = (if n > 0 then close_open (n - 1) c (trimmed @ [c]) else trimmed)"
  by pat_completeness auto
termination
  by (relation "measure (\<lambda>(n, c, trimmed). nat n)") auto

text \<open>
  The text that \<open>tryRepairAndParse\<close> hands to \<open>json.Unmarshal\<close>; the cutset
  \<open>" \t\n\r"\<close> is the runes 32, 9, 10 and 13.
\<close>

definition repaired :: "gostring \<Rightarrow> gostring" where
  "repaired s =
     (let trimmed = TrimSuffix (TrimRight s [32, 9, 10, 13]) (str '','');
          st = scan_all trimmed;
          trimmed = (if inString st then trimmed @ [34] else trimmed);
          trimmed = close_open (openBrackets st) 93 trimmed;
          trimmed = close_open (openBraces st) 125 trimmed
      in trimmed)"

text \<open>
  \<open>json.Unmarshal\<close> into a nil \<open>map[string]any\<close> belongs to the Go library and is a
  parameter here: from the text, the map left in the variable (\<open>None\<close> is the nil map)
  and the error.
\<close>

type_synonym Unmarshal = "gostring \<Rightarrow> gomap option \<times> goerror"

definition tryRepairAndParse :: "Unmarshal \<Rightarrow> gostring \<Rightarrow> gomap option" where
  "tryRepairAndParse unmarshal s =
     (case unmarshal (repaired s) of
        (result, None) \<Rightarrow> result
      | (result, Some err) \<Rightarrow> None)"

definition ParseStreamingJSON :: "Unmarshal \<Rightarrow> gostring \<Rightarrow> gomap option" where
  "ParseStreamingJSON unmarshal partial =
     (let partial = TrimSpace partial
      in if partial = [] then Some []
         else case unmarshal partial of
                (result, None) \<Rightarrow> result
              | (_, Some err) \<Rightarrow>
                  (case tryRepairAndParse unmarshal partial of
                     Some result \<Rightarrow> Some result
                   | None \<Rightarrow> Some []))"

text \<open>The insignificant whitespace of JSON (RFC 8259): space, tab, line feed, carriage return.\<close>

definition is_json_ws :: "rune \<Rightarrow> bool" where
  "is_json_ws c \<longleftrightarrow> c = 32 \<or> c = 9 \<or> c = 10 \<or> c = 13"

section \<open>pkg/ai/validation.go\<close>

text \<open>
  What the modelled code takes from the Go library and the clock: \<open>time.Now().UnixMilli()\<close>
  reads the world; \<open>%q\<close> of \<open>fmt\<close> and \<open>json.MarshalIndent(args, "", "  ")\<close> build
  pieces of an error text.
\<close>

record 'w GoLib =
  lib_UnixMilli :: "'w \<Rightarrow> int \<times> 'w"
  lib_Quote :: "gostring \<Rightarrow> gostring"
  lib_MarshalIndent :: "gomap \<Rightarrow> gostring"

definition Join :: "gostring list \<Rightarrow> gostring \<Rightarrow> gostring" where
  \<comment> \<open>\<open>strings.Join\<close>\<close>
  "Join elems sep = (case elems of [] \<Rightarrow> [] | e # es \<Rightarrow> e @ concat (map (\<lambda>x. sep @ x) es))"

definition missing_required :: "anyval list \<Rightarrow> gomap \<Rightarrow> gostring list" where
  \<comment> \<open>the loop over \<open>reqList\<close>: the required names that are strings and not keys of \<open>args\<close>\<close>
  "missing_required reqList args =
     concat (map (\<lambda>r. case r of
                          AString name \<Rightarrow> (if map_of args name = None then [name] else [])
                        | _ \<Rightarrow> []) reqList)"

definition ValidateToolArguments ::
  "'w GoLib \<Rightarrow> Tool \<Rightarrow> ToolCall \<Rightarrow> gomap \<times> goerror" where
  "ValidateToolArguments lib tool tc =
     (let args = tc_Arguments tc;
          schema = tool_Parameters tool
      in case map_of schema (str ''required'') of
           Some (AList reqList) \<Rightarrow>
             (let missing = missing_required reqList args
              in if missing \<noteq> [] then
                   ([], Some (str ''validation failed for tool '' @ lib_Quote lib (tc_Name tc)
                              @ str '':\<newline>  - missing required: '' @ Join missing (str '', '')
                              @ str ''\<newline>\<newline>Received arguments:\<newline>''
                              @ lib_MarshalIndent lib args))
                 else (args, None))
         | _ \<Rightarrow> (args, None))"

section \<open>pkg/agent/loop.go\<close>

text \<open>
  A function of the loop returns its value together with the events it pushed on the
  agent event stream, in order, and the world it leaves.
\<close>

definition findTool :: "'w AgentTool list \<Rightarrow> gostring \<Rightarrow> 'w AgentTool option" where
  "findTool tools name = find (\<lambda>t. tool_Name (at_Tool t) = name) tools"

definition makeErrorAssistantMessage :: "Model \<Rightarrow> gostring \<Rightarrow> int \<Rightarrow> AssistantMessage" where
  \<comment> \<open>the last argument is the reading of the clock\<close>
  "makeErrorAssistantMessage model errMsg now =
     \<lparr>am_Role = RoleAssistant, am_Content = [NewTextContent []], am_Api = model_Api model,
      am_Provider = model_Provider model, am_Model = model_ID model, am_Usage = zero_Usage,
      am_StopReason = StopReasonError, am_ErrorMessage = errMsg, am_Timestamp = now\<rparr>"

definition cloneAssistant :: "AssistantMessage option \<Rightarrow> AssistantMessage option" where
  \<comment> \<open>a copy of the struct with a fresh content slice: the same value\<close>
  "cloneAssistant m = m"

definition toolCallsOf :: "Content list \<Rightarrow> ToolCall list" where
  \<comment> \<open>the tool calls among the content blocks, in order\<close>
  "toolCallsOf content = List.map_filter c_ToolCall content"

definition message_events :: "AgentMessage \<Rightarrow> AgentEvent list" where
  \<comment> \<open>\<open>message_start\<close> then \<open>message_end\<close> for the same message\<close>
  "message_events m =
     [(AgentEvent0 MessageEventStart)\<lparr>ev_Message := Some m\<rparr>,
      (AgentEvent0 MessageEventEnd)\<lparr>ev_Message := Some m\<rparr>]"

definition tool_start_event :: "ToolCall \<Rightarrow> AgentEvent" where
  "tool_start_event tc =
     (AgentEvent0 ToolExecutionEventStart)
       \<lparr>ev_ToolCallID := tc_ID tc, ev_ToolName := tc_Name tc, ev_Args := Some (tc_Arguments tc)\<rparr>"

definition tool_update_event :: "ToolCall \<Rightarrow> AgentToolResult \<Rightarrow> AgentEvent" where
  \<comment> \<open>what the \<open>onUpdate\<close> callback pushes\<close>
  "tool_update_event tc partial =
     (AgentEvent0 ToolExecutionEventUpdate)
       \<lparr>ev_ToolCallID := tc_ID tc, ev_ToolName := tc_Name tc, ev_Args := Some (tc_Arguments tc),
        ev_PartialResult := Some partial\<rparr>"

definition tool_end_event :: "ToolCall \<Rightarrow> AgentToolResult \<Rightarrow> bool \<Rightarrow> AgentEvent" where
  "tool_end_event tc result isError =
     (AgentEvent0 ToolExecutionEventEnd)
       \<lparr>ev_ToolCallID := tc_ID tc, ev_ToolName := tc_Name tc, ev_Result := Some result,
        ev_IsError := isError\<rparr>"

definition skipToolCall ::
  "'w GoLib \<Rightarrow> ToolCall \<Rightarrow> 'w \<Rightarrow> (ToolResultMessage \<times> AgentEvent list) \<times> 'w" where
  "skipToolCall lib tc w =
     (let result = \<lparr>atr_Content = [NewTextContent (str ''Skipped due to queued user message.'')],
                    atr_Details = None\<rparr>
      in case lib_UnixMilli lib w of
           (now, w1) \<Rightarrow>
             (let trMsg = \<lparr>tr_Role = RoleToolResult, tr_ToolCallID = tc_ID tc,
                           tr_ToolName = tc_Name tc, tr_Content = atr_Content result,
                           tr_Details = None, tr_IsError = True, tr_Timestamp = now\<rparr>
              in ((trMsg,
                   [tool_start_event tc, tool_end_event tc result True]
                   @ message_events (NewAgentMessageFromMessage (msg_ToolResult trMsg))),
                  w1)))"

text \<open>
  The body of the loop of \<open>executeToolCalls\<close> for one call, up to the steering check:
  the tool-result message of the call and the events pushed for it.
\<close>

definition error_result :: "gostring \<Rightarrow> AgentToolResult" where
  \<comment> \<open>\<open>AgentToolResult{Content: []ai.Content{ai.NewTextContent(text)}}\<close>\<close>
  "error_result text = \<lparr>atr_Content = [NewTextContent text], atr_Details = None\<rparr>"

definition runToolCall ::
  "'w GoLib \<Rightarrow> 'w AgentTool list \<Rightarrow> ToolCall \<Rightarrow> 'w
   \<Rightarrow> (ToolResultMessage \<times> AgentEvent list) \<times> 'w" where
  "runToolCall lib tools tc w =
     (case (case findTool tools (tc_Name tc) of
                 None \<Rightarrow>
                   ((error_result (str ''Tool '' @ tc_Name tc @ str '' not found''), True, []), w)
               | Some tool \<Rightarrow>
                   (case ValidateToolArguments lib (at_Tool tool) tc of
                      (args, Some err) \<Rightarrow> ((error_result err, True, []), w)
                    | (args, None) \<Rightarrow>
                        (case at_Execute tool (tc_ID tc) args w of
                           ((partials, execResult, Some err), w') \<Rightarrow>
                             ((error_result err, True, map (tool_update_event tc) partials), w')
                         | ((partials, execResult, None), w') \<Rightarrow>
                             ((execResult, False, map (tool_update_event tc) partials), w')))) of
           ((result, isError, updates), w1) \<Rightarrow>
             (case lib_UnixMilli lib w1 of
                (now, w2) \<Rightarrow>
                  (let trMsg = \<lparr>tr_Role = RoleToolResult, tr_ToolCallID = tc_ID tc,
                                tr_ToolName = tc_Name tc, tr_Content = atr_Content result,
                                tr_Details = atr_Details result, tr_IsError = isError,
                                tr_Timestamp = now\<rparr>
                   in ((trMsg,
                        [tool_start_event tc] @ updates @ [tool_end_event tc result isError]
                        @ message_events (NewAgentMessageFromMessage (msg_ToolResult trMsg))),
                       w2))))"

text \<open>\<open>for _, skipped := range toolCalls[i+1:] { results = append(results, skipToolCall(...)) }\<close>\<close>

fun skipRemaining ::
  "'w GoLib \<Rightarrow> ToolCall list \<Rightarrow> 'w \<Rightarrow> (ToolResultMessage list \<times> AgentEvent list) \<times> 'w" where
  "skipRemaining lib [] w = (([], []), w)"
| "skipRemaining lib (tc # rest) w =
     (case skipToolCall lib tc w of
        ((trMsg, evs), w1) \<Rightarrow>
          (case skipRemaining lib rest w1 of
             ((results, evs'), w2) \<Rightarrow> ((trMsg # results, evs @ evs'), w2)))"

text \<open>
  The loop of \<open>executeToolCalls\<close> over the tool calls still to run. It returns the
  results, the steering messages that interrupted it (none if it ran to the end) and
  the events.
\<close>

fun runToolCalls ::
  "'w GoLib \<Rightarrow> 'w AgentTool list \<Rightarrow> 'w QueueFn option \<Rightarrow> ToolCall list \<Rightarrow> 'w
   \<Rightarrow> ((ToolResultMessage list \<times> AgentMessage list) \<times> AgentEvent list) \<times> 'w" where
  "runToolCalls lib tools getSteeringMessages [] w = ((([], []), []), w)"
| "runToolCalls lib tools getSteeringMessages (tc # rest) w =
     (case runToolCall lib tools tc w of
        ((trMsg, evs), w1) \<Rightarrow>
          (case (case getSteeringMessages of
                   None \<Rightarrow> (([], None), w1)
                 | Some get \<Rightarrow> get w1) of
             ((steering, err), w2) \<Rightarrow>
               if getSteeringMessages \<noteq> None \<and> err = None \<and> steering \<noteq> [] then
                 (case skipRemaining lib rest w2 of
                    ((skipped, evs'), w3) \<Rightarrow> (((trMsg # skipped, steering), evs @ evs'), w3))
               else
                 (case runToolCalls lib tools getSteeringMessages rest w2 of
                    (((results, steeringMessages), evs'), w3) \<Rightarrow>
                      (((trMsg # results, steeringMessages), evs @ evs'), w3))))"

definition executeToolCalls ::
  "'w GoLib \<Rightarrow> 'w AgentTool list \<Rightarrow> AssistantMessage \<Rightarrow> 'w QueueFn option \<Rightarrow> 'w
   \<Rightarrow> ((ToolResultMessage list \<times> AgentMessage list) \<times> AgentEvent list) \<times> 'w" where
  "executeToolCalls lib tools assistantMsg getSteeringMessages w =
     runToolCalls lib tools getSteeringMessages (toolCallsOf (am_Content assistantMsg)) w"

text \<open>
  To state what a batch emits: the \<open>tool_execution_start\<close> and \<open>tool_execution_end\<close>
  events of a trace, each with its tool-call id, in order; and the pair that one call
  contributes.
\<close>

definition tool_boundaries :: "AgentEvent list \<Rightarrow> (gostring \<times> gostring) list" where
  "tool_boundaries evs =
     map (\<lambda>e. (ev_Type e, ev_ToolCallID e))
       (filter (\<lambda>e. ev_Type e = ToolExecutionEventStart \<or> ev_Type e = ToolExecutionEventEnd) evs)"

definition start_end_pair :: "ToolCall \<Rightarrow> (gostring \<times> gostring) list" where
  "start_end_pair tc = [(ToolExecutionEventStart, tc_ID tc), (ToolExecutionEventEnd, tc_ID tc)]"

definition skip_text :: gostring where
  "skip_text = str ''Skipped due to queued user message.''"

text \<open>
  How a step of the loop comes out besides returning: a nil pointer or nil function is
  used (the goroutine panics), or it waits for ever on a stream that is never closed or
  resolved.
\<close>

datatype 'a step = Ok 'a | Failed gostring | Panic | Blocked

text \<open>
  The loop over \<open>response.Events()\<close> in \<open>streamAssistantResponse\<close>. Its state is
  \<open>partialMessage\<close>, \<open>addedPartial\<close> and \<open>agentCtx.Messages\<close>; it returns how the function
  comes out (the final message pointer when it returns), the context messages and the
  events pushed.
\<close>

definition is_delta_event :: "gostring \<Rightarrow> bool" where
  "is_delta_event t \<longleftrightarrow>
     t = EventTextStart \<or> t = EventTextDelta \<or> t = EventTextEnd
     \<or> t = EventThinkingStart \<or> t = EventThinkingDelta \<or> t = EventThinkingEnd
     \<or> t = EventToolCallStart \<or> t = EventToolCallDelta \<or> t = EventToolCallEnd"

definition assistant_message :: "AssistantMessage option \<Rightarrow> AgentMessage" where
  \<comment> \<open>\<open>NewAgentMessageFromMessage(ai.Message{Assistant: p})\<close>\<close>
  "assistant_message p = NewAgentMessageFromMessage (msg_Assistant p)"

fun consumeEvents ::
  "Response \<Rightarrow> AssistantMessageEvent list \<Rightarrow> AssistantMessage option \<Rightarrow> bool
   \<Rightarrow> AgentMessage list
   \<Rightarrow> AssistantMessage option step \<times> AgentMessage list \<times> AgentEvent list" where
  "consumeEvents response [] partialMessage addedPartial messages =
     (if rs_Closed response then
        (case rs_Result response of
           None \<Rightarrow> (Blocked, messages, [])
         | Some final \<Rightarrow> (Ok final, messages, []))
      else (Blocked, messages, []))"
| "consumeEvents response (event # events) partialMessage addedPartial messages =
     (if ame_Type event = EventStart then
        (let partialMessage = ame_Partial event;
             messages = messages @ [assistant_message partialMessage];
             pushed = [(AgentEvent0 MessageEventStart)
                         \<lparr>ev_Message := Some (assistant_message (cloneAssistant partialMessage))\<rparr>]
         in case consumeEvents response events partialMessage True messages of
              (out, messages', evs) \<Rightarrow> (out, messages', pushed @ evs))
      else if is_delta_event (ame_Type event) then
        (if partialMessage \<noteq> None then
           (let partialMessage = ame_Partial event;
                messages = (if addedPartial
                            then messages[length messages - 1 := assistant_message partialMessage]
                            else messages);
                pushed = [(AgentEvent0 MessageEventUpdate)
                            \<lparr>ev_AssistantMessageEvent := Some event,
                             ev_Message := Some (assistant_message (cloneAssistant partialMessage))\<rparr>]
            in case consumeEvents response events partialMessage addedPartial messages of
                 (out, messages', evs) \<Rightarrow> (out, messages', pushed @ evs))
         else consumeEvents response events partialMessage addedPartial messages)
      else if ame_Type event = EventDone \<or> ame_Type event = EventError then
        (case rs_Result response of
           None \<Rightarrow> (Blocked, messages, [])
         | Some finalMessage \<Rightarrow>
             (let messages = (if addedPartial
                              then messages[length messages - 1 := assistant_message finalMessage]
                              else messages @ [assistant_message finalMessage]);
                  started = (if \<not> addedPartial
                             then [(AgentEvent0 MessageEventStart)
                                     \<lparr>ev_Message :=
                                        Some (assistant_message (cloneAssistant finalMessage))\<rparr>]
                             else [])
              in (Ok finalMessage, messages,
                  started @ [(AgentEvent0 MessageEventEnd)
                               \<lparr>ev_Message := Some (assistant_message finalMessage)\<rparr>])))
      else consumeEvents response events partialMessage addedPartial messages)"

text \<open>
  \<open>streamAssistantResponse\<close>. Of \<open>agentCtx\<close> it changes \<open>Messages\<close> only, so it takes
  the context and returns the new message list, with the world the hooks leave. Its
  first steps are named: the optional context transform, and the options with the API
  key resolved.
\<close>

definition applyTransformContext ::
  "'w AgentLoopConfig \<Rightarrow> AgentMessage list \<Rightarrow> 'w \<Rightarrow> (AgentMessage list \<times> goerror) \<times> 'w" where
  "applyTransformContext config messages w =
     (case cfg_TransformContext config of
        None \<Rightarrow> ((messages, None), w)
      | Some transform \<Rightarrow> transform messages w)"

definition resolveApiKey :: "'w AgentLoopConfig \<Rightarrow> 'w \<Rightarrow> SimpleStreamOptions \<times> 'w" where
  "resolveApiKey config w =
     (let opts = cfg_SimpleStreamOptions config
      in case cfg_GetApiKey config of
           None \<Rightarrow> (opts, w)
         | Some getApiKey \<Rightarrow>
             (case getApiKey (model_Provider (cfg_Model config)) w of
                ((key, err), w1) \<Rightarrow>
                  (if err = None \<and> key \<noteq> []
                   then (opts\<lparr>sso_StreamOptions := (sso_StreamOptions opts)\<lparr>so_ApiKey := key\<rparr>\<rparr>, w1)
                   else (opts, w1))))"

definition streamAssistantResponse ::
  "'w AgentContext \<Rightarrow> 'w AgentLoopConfig \<Rightarrow> 'w StreamFn option \<Rightarrow> 'w
   \<Rightarrow> (AssistantMessage option step \<times> AgentMessage list \<times> AgentEvent list) \<times> 'w" where
  "streamAssistantResponse agentCtx config streamFn w =
     (case applyTransformContext config (ctx_Messages agentCtx) w of
        ((messages, Some err), w1) \<Rightarrow>
          ((Failed (str ''transformContext: '' @ err), ctx_Messages agentCtx, []), w1)
      | ((messages, None), w1) \<Rightarrow>
          (case cfg_ConvertToLLM config of
             None \<Rightarrow> ((Panic, ctx_Messages agentCtx, []), w1)
           | Some convert \<Rightarrow>
               (case convert messages w1 of
                  ((llmMessages, Some err), w2) \<Rightarrow>
                    ((Failed (str ''convertToLLM: '' @ err), ctx_Messages agentCtx, []), w2)
                | ((llmMessages, None), w2) \<Rightarrow>
                    (let llmCtx = \<lparr>llm_SystemPrompt = ctx_SystemPrompt agentCtx,
                                   llm_Messages = llmMessages,
                                   llm_Tools = map at_Tool (ctx_Tools agentCtx)\<rparr>
                     in case streamFn of
                          None \<Rightarrow>
                            ((Failed (str ''no stream function provided''),
                              ctx_Messages agentCtx, []), w2)
                        | Some sf \<Rightarrow>
                            (case resolveApiKey config w2 of
                               (opts, w3) \<Rightarrow>
                                 (case sf (cfg_Model config) llmCtx opts w3 of
                                    (None, w4) \<Rightarrow> ((Panic, ctx_Messages agentCtx, []), w4)
                                  | (Some response, w4) \<Rightarrow>
                                      (consumeEvents response (rs_Events response) None False
                                         (ctx_Messages agentCtx), w4)))))))"

text \<open>A finished or interrupted run of the loop, as its observer sees it.\<close>

datatype RunStatus = Finished | Panicked | Waiting | OutOfFuel

record 'w Run =
  run_status :: RunStatus
  run_events :: "AgentEvent list"
  run_newMessages :: "AgentMessage list"
  run_context :: "AgentMessage list"
  run_world :: "'w"

definition tool_result_message :: "ToolResultMessage \<Rightarrow> AgentMessage" where
  \<comment> \<open>\<open>NewAgentMessageFromMessage(ai.Message{ToolResult: &r})\<close>\<close>
  "tool_result_message r = NewAgentMessageFromMessage (msg_ToolResult r)"

definition turn_end_event :: "AgentMessage \<Rightarrow> ToolResultMessage list \<Rightarrow> AgentEvent" where
  "turn_end_event am toolResults =
     (AgentEvent0 TurnEventEnd)\<lparr>ev_Message := Some am, ev_ToolResults := toolResults\<rparr>"

definition agent_end_event :: "AgentMessage list \<Rightarrow> AgentEvent" where
  "agent_end_event newMessages = (AgentEvent0 AgentEventEnd)\<lparr>ev_Messages := newMessages\<rparr>"

definition poll :: "'w QueueFn option \<Rightarrow> AgentMessage list \<Rightarrow> 'w \<Rightarrow> AgentMessage list \<times> 'w" where
  \<comment> \<open>\<open>if get != nil { if msgs, err := get(); err == nil { pending = msgs } }\<close>\<close>
  "poll get pending w =
     (case get of
        None \<Rightarrow> (pending, w)
      | Some g \<Rightarrow> (case g w of ((msgs, err), w') \<Rightarrow> (if err = None then msgs else pending, w')))"

text \<open>
  The two nested loops of \<open>runLoop\<close>, one turn (one pass of the inner loop body) per
  unit of fuel; each pass of the outer loop starts with a pass of the inner one, since
  \<open>hasMoreToolCalls\<close> is set on entry. The arguments after the fuel and the fixed ones
  are the variables \<open>firstTurn\<close>, \<open>pendingMessages\<close> and \<open>steeringAfterTools\<close>, the
  messages of \<open>currentCtx\<close>, \<open>newMessages\<close> and the world. The events returned are those
  pushed from this turn on.
\<close>

fun runTurns ::
  "nat \<Rightarrow> 'w GoLib \<Rightarrow> 'w AgentLoopConfig \<Rightarrow> 'w StreamFn option \<Rightarrow> 'w AgentContext
   \<Rightarrow> bool \<Rightarrow> AgentMessage list \<Rightarrow> AgentMessage list
   \<Rightarrow> AgentMessage list \<Rightarrow> AgentMessage list \<Rightarrow> 'w \<Rightarrow> 'w Run" where
  "runTurns 0 lib config streamFn ctx0 firstTurn pendingMessages steeringAfterTools
     ctxMessages newMessages w =
     \<lparr>run_status = OutOfFuel, run_events = [], run_newMessages = newMessages,
      run_context = ctxMessages, run_world = w\<rparr>"
| "runTurns (Suc fuel) lib config streamFn ctx0 firstTurn pendingMessages steeringAfterTools
     ctxMessages newMessages w =
     (let turnStart = (if \<not> firstTurn then [AgentEvent0 TurnEventStart] else []);
          pendingEvents = concat (map message_events pendingMessages);
          ctxMessages = ctxMessages @ pendingMessages;
          newMessages = newMessages @ pendingMessages;
          pendingMessages = [];
          before = turnStart @ pendingEvents
      in case streamAssistantResponse (ctx0\<lparr>ctx_Messages := ctxMessages\<rparr>) config streamFn w of
           ((Failed err, ctxMessages, evs), w1) \<Rightarrow>
             (case lib_UnixMilli lib w1 of
                (now, w2) \<Rightarrow>
                  (let am = assistant_message
                              (Some (makeErrorAssistantMessage (cfg_Model config) err now));
                       newMessages = newMessages @ [am]
                   in \<lparr>run_status = Finished,
                       run_events = before @ evs
                                    @ [turn_end_event am [], agent_end_event newMessages],
                       run_newMessages = newMessages, run_context = ctxMessages,
                       run_world = w2\<rparr>))
         | ((Panic, ctxMessages, evs), w1) \<Rightarrow>
             \<lparr>run_status = Panicked, run_events = before @ evs, run_newMessages = newMessages,
              run_context = ctxMessages, run_world = w1\<rparr>
         | ((Blocked, ctxMessages, evs), w1) \<Rightarrow>
             \<lparr>run_status = Waiting, run_events = before @ evs, run_newMessages = newMessages,
              run_context = ctxMessages, run_world = w1\<rparr>
         | ((Ok None, ctxMessages, evs), w1) \<Rightarrow>
             \<lparr>run_status = Panicked, run_events = before @ evs,
              run_newMessages = newMessages @ [assistant_message None],
              run_context = ctxMessages, run_world = w1\<rparr>
         | ((Ok (Some message), ctxMessages, evs), w1) \<Rightarrow>
             (let am = assistant_message (Some message);
                  newMessages = newMessages @ [am]
              in if am_StopReason message = StopReasonError
                    \<or> am_StopReason message = StopReasonAborted then
                   \<lparr>run_status = Finished,
                    run_events = before @ evs
                                 @ [turn_end_event am [], agent_end_event newMessages],
                    run_newMessages = newMessages, run_context = ctxMessages, run_world = w1\<rparr>
                 else
                   (let toolCalls = toolCallsOf (am_Content message);
                        hasMoreToolCalls = (toolCalls \<noteq> [])
                    in case (if hasMoreToolCalls
                             then executeToolCalls lib (ctx_Tools ctx0) message
                                    (cfg_GetSteeringMessages config) w1
                             else ((([], steeringAfterTools), []), w1)) of
                         (((toolResults, steeringAfterTools), toolEvents), w2) \<Rightarrow>
                           (let ctxMessages = ctxMessages @ map tool_result_message toolResults;
                                newMessages = newMessages @ map tool_result_message toolResults;
                                turnEvents = before @ evs @ toolEvents
                                             @ [turn_end_event am toolResults]
                            in case (if steeringAfterTools \<noteq> []
                                     then ((steeringAfterTools, []), w2)
                                     else (case poll (cfg_GetSteeringMessages config)
                                                  pendingMessages w2 of
                                             (pending, w3) \<Rightarrow> ((pending, steeringAfterTools), w3))) of
                                 ((pendingMessages, steeringAfterTools), w3) \<Rightarrow>
                                   if hasMoreToolCalls \<or> pendingMessages \<noteq> [] then
                                     (let rest = runTurns fuel lib config streamFn ctx0 False
                                                   pendingMessages steeringAfterTools
                                                   ctxMessages newMessages w3
                                      in rest\<lparr>run_events := turnEvents @ run_events rest\<rparr>)
                                   else
                                     (case (case cfg_GetFollowUpMessages config of
                                              None \<Rightarrow> (([], None), w3)
                                            | Some get \<Rightarrow> get w3) of
                                        ((followUp, err), w4) \<Rightarrow>
                                          if cfg_GetFollowUpMessages config \<noteq> None
                                             \<and> err = None \<and> followUp \<noteq> [] then
                                            (let rest = runTurns fuel lib config streamFn ctx0
                                                          False followUp [] ctxMessages
                                                          newMessages w4
                                             in rest\<lparr>run_events := turnEvents @ run_events rest\<rparr>)
                                          else
                                            \<lparr>run_status = Finished,
                                             run_events = turnEvents
                                                          @ [agent_end_event newMessages],
                                             run_newMessages = newMessages,
                                             run_context = ctxMessages,
                                             run_world = w4\<rparr>)))))"

definition runLoop ::
  "nat \<Rightarrow> 'w GoLib \<Rightarrow> 'w AgentContext \<Rightarrow> AgentMessage list \<Rightarrow> 'w AgentLoopConfig
   \<Rightarrow> 'w StreamFn option \<Rightarrow> 'w \<Rightarrow> 'w Run" where
  "runLoop fuel lib currentCtx newMessages config streamFn w =
     (case poll (cfg_GetSteeringMessages config) [] w of
        (pendingMessages, w1) \<Rightarrow>
          runTurns fuel lib config streamFn currentCtx True pendingMessages []
            (ctx_Messages currentCtx) newMessages w1)"


definition AgentLoopContinue ::
  "nat \<Rightarrow> 'w GoLib \<Rightarrow> 'w AgentContext \<Rightarrow> 'w AgentLoopConfig \<Rightarrow> 'w StreamFn option \<Rightarrow> 'w
   \<Rightarrow> gostring + 'w Run" where
  "AgentLoopContinue fuel lib agentCtx config streamFn w =
     (if ctx_Messages agentCtx = [] then Inl (str ''cannot continue: no messages in context'')
      else if Role (agm_Message (last (ctx_Messages agentCtx))) = RoleAssistant
      then Inl (str ''cannot continue from message role: assistant'')
      else
        (let pushed = [AgentEvent0 AgentEventStart, AgentEvent0 TurnEventStart];
             run = runLoop fuel lib agentCtx [] config streamFn w
         in Inr (run\<lparr>run_events := pushed @ run_events run\<rparr>)))"

text \<open>The messages that the \<open>message_end\<close> events of a trace finalise, in event order.\<close>

definition finalised :: "AgentEvent list \<Rightarrow> AgentMessage list" where
  "finalised evs =
     concat (map (\<lambda>e. case ev_Message e of None \<Rightarrow> [] | Some m \<Rightarrow> [m])
               (filter (\<lambda>e. ev_Type e = MessageEventEnd) evs))"




section \<open>Context overflow detection\<close>

text \<open>
  The part of Go's \<open>regexp\<close> that the overflow patterns use, all of them compiled
  with the flag \<open>(?i)\<close>. An atom matches one rune: a literal matches every rune of its
  case-folding orbit (\<open>unicode.SimpleFold\<close>; for the ASCII letters this is the other
  case, and besides U+212A for k and U+017F for s), \<open>.\<close> every rune but the newline,
  \<open>\d\<close> the ASCII digits, \<open>\s\<close> the runes of \<open>[\t\n\f\r ]\<close>, a bracket class the
  runes it lists.
\<close>

datatype atom = ALit rune | ADot | ADigit | ASpace | AClass "rune list"

definition fold_orbit :: "rune \<Rightarrow> rune list" where
  "fold_orbit c =
     (if 97 \<le> c \<and> c \<le> 122 then [c, c - 32]
      else if 65 \<le> c \<and> c \<le> 90 then [c, c + 32]
      else [c])
     @ (if c = 107 \<or> c = 75 then [8490]
        else if c = 115 \<or> c = 83 then [383]
        else [])"

fun atom_match :: "atom \<Rightarrow> rune \<Rightarrow> bool" where
  "atom_match (ALit c) d = (d \<in> set (fold_orbit c))"
| "atom_match ADot d = (d \<noteq> 10)"
| "atom_match ADigit d = (48 \<le> d \<and> d \<le> 57)"
| "atom_match ASpace d = (d = 9 \<or> d = 10 \<or> d = 12 \<or> d = 13 \<or> d = 32)"
| "atom_match (AClass cs) d = list_ex (\<lambda>c. d \<in> set (fold_orbit c)) cs"

datatype regex = Zero | One | Atom atom | Seq regex regex | Alt regex regex | Star regex

fun nullable :: "regex \<Rightarrow> bool" where
  "nullable Zero = False"
| "nullable One = True"
| "nullable (Atom a) = False"
| "nullable (Seq r s) = (nullable r \<and> nullable s)"
| "nullable (Alt r s) = (nullable r \<or> nullable s)"
| "nullable (Star r) = True"

fun deriv :: "rune \<Rightarrow> regex \<Rightarrow> regex" where
  "deriv d Zero = Zero"
| "deriv d One = Zero"
| "deriv d (Atom a) = (if atom_match a d then One else Zero)"
| "deriv d (Seq r s) =
     (if nullable r then Alt (Seq (deriv d r) s) (deriv d s) else Seq (deriv d r) s)"
| "deriv d (Alt r s) = Alt (deriv d r) (deriv d s)"
| "deriv d (Star r) = Seq (deriv d r) (Star r)"

text \<open>\<open>match_prefix r s\<close>: the expression matches at the start of \<open>s\<close>.\<close>

fun match_prefix :: "regex \<Rightarrow> gostring \<Rightarrow> bool" where
  "match_prefix r [] = nullable r"
| "match_prefix r (c # cs) = (nullable r \<or> match_prefix (deriv c r) cs)"

text \<open>\<open>search r s\<close>: the expression matches somewhere in \<open>s\<close>.\<close>

fun search :: "regex \<Rightarrow> gostring \<Rightarrow> bool" where
  "search r [] = nullable r"
| "search r (c # cs) = (match_prefix r (c # cs) \<or> search r cs)"

text \<open>
  A compiled pattern: its body, and whether it starts with the anchor \<open>^\<close>.
  \<open>MatchString\<close> asks for a match anywhere in the text, or at its start when anchored.
\<close>

record Regexp =
  re_anchored :: bool
  re_body :: regex

definition MatchString :: "Regexp \<Rightarrow> gostring \<Rightarrow> bool" where
  "MatchString p s =
     (if re_anchored p then match_prefix (re_body p) s else search (re_body p) s)"

definition lit :: "string \<Rightarrow> regex" where
  "lit s = foldr (\<lambda>c r. Seq (Atom (ALit (of_char c))) r) s One"

definition Plus :: "regex \<Rightarrow> regex" where
  "Plus r = Seq r (Star r)"

definition Opt :: "regex \<Rightarrow> regex" where
  "Opt r = Alt r One"

definition unanchored :: "regex \<Rightarrow> Regexp" where
  "unanchored r = \<lparr>re_anchored = False, re_body = r\<rparr>"

definition overflowPatterns :: "Regexp list" where
  "overflowPatterns =
     [unanchored (lit ''prompt is too long''),
      unanchored (lit ''input is too long for requested model''),
      unanchored (lit ''exceeds the context window''),
      unanchored (Seq (lit ''input token count'')
                   (Seq (Star (Atom ADot)) (lit ''exceeds the maximum''))),
      unanchored (Seq (lit ''maximum prompt length is '') (Plus (Atom ADigit))),
      unanchored (lit ''reduce the length of the messages''),
      unanchored (Seq (lit ''maximum context length is '')
                   (Seq (Plus (Atom ADigit)) (lit '' tokens''))),
      unanchored (Seq (lit ''exceeds the limit of '') (Plus (Atom ADigit))),
      unanchored (lit ''exceeds the available context size''),
      unanchored (lit ''greater than the context length''),
      unanchored (lit ''context window exceeds limit''),
      unanchored (lit ''exceeded model token limit''),
      unanchored (Seq (lit ''context'')
                   (Seq (Atom (AClass (str ''_ '')))
                      (Seq (lit ''length'')
                         (Seq (Atom (AClass (str ''_ ''))) (lit ''exceeded''))))),
      unanchored (lit ''too many tokens''),
      unanchored (lit ''token limit exceeded'')]"

definition noBodyPattern :: Regexp where
  "noBodyPattern =
     \<lparr>re_anchored = True,
      re_body = Seq (lit ''4'')
                 (Seq (Alt (lit ''00'') (lit ''13''))
                    (Seq (Star (Atom ASpace))
                       (Seq (Opt (lit ''status code''))
                          (Seq (Star (Atom ASpace)) (lit ''(no body)'')))))\<rparr>"

definition IsContextOverflow :: "AssistantMessage \<Rightarrow> goint \<Rightarrow> bool" where
  "IsContextOverflow msg contextWindow =
     (let silent =
            (if 0 <s contextWindow \<and> am_StopReason msg = StopReasonStop then
               (let inputTokens = usage_Input (am_Usage msg) + usage_CacheRead (am_Usage msg)
                in if contextWindow <s inputTokens then True else False)
             else False)
      in if am_StopReason msg = StopReasonError \<and> am_ErrorMessage msg \<noteq> [] then
           (if list_ex (\<lambda>p. MatchString p (am_ErrorMessage msg)) overflowPatterns then True
            else if MatchString noBodyPattern (am_ErrorMessage msg) then True
            else silent)
         else silent)"

text \<open>
  The language of an expression, to say what the matcher decides: \<open>star A\<close> is the
  set of concatenations of words of \<open>A\<close>.
\<close>

inductive_set star :: "gostring set \<Rightarrow> gostring set" for A :: "gostring set" where
  star_nil: "[] \<in> star A"
| star_app: "u \<in> A \<Longrightarrow> v \<in> star A \<Longrightarrow> u @ v \<in> star A"

fun lang :: "regex \<Rightarrow> gostring set" where
  "lang Zero = {}"
| "lang One = {[]}"
| "lang (Atom a) = {[d] | d. atom_match a d}"
| "lang (Seq r s) = {u @ v | u v. u \<in> lang r \<and> v \<in> lang s}"
| "lang (Alt r s) = lang r \<union> lang s"
| "lang (Star r) = star (lang r)"

section \<open>Inputs for the examples\<close>

text \<open>
  The model, the dummy provider and the direct use of the loop of
  \<open>examples/simple/main.go\<close>, with a clock that stands still; the costs 3.0 and 15.0
  are written as their bit patterns.
\<close>

definition ex_model :: Model where
  "ex_model =
     \<lparr>model_ID = str ''claude-sonnet-4-5-20250929'', model_Name = str ''Claude Sonnet 4.5'',
      model_Api = str ''anthropic-messages'', model_Provider = str ''anthropic'',
      model_BaseURL = str ''https://api.anthropic.com'', model_Reasoning = True,
      model_Input = [str ''text'', str ''image''],
      model_Cost = \<lparr>mc_Input = Float64 0x4008000000000000, mc_Output = Float64 0x402E000000000000,
                     mc_CacheRead = Float64 0, mc_CacheWrite = Float64 0\<rparr>,
      model_ContextWindow = 200000, model_MaxTokens = 8192, model_Headers = []\<rparr>"

definition ex_lib :: "'w GoLib" where
  "ex_lib =
     \<lparr>lib_UnixMilli = (\<lambda>w. (1700000000000, w)),
      lib_Quote = (\<lambda>s. [34] @ s @ [34]),
      lib_MarshalIndent = (\<lambda>args. str ''{}'')\<rparr>"

definition ex_reply :: "Model \<Rightarrow> Content list \<Rightarrow> gostring \<Rightarrow> AssistantMessage" where
  "ex_reply model content reason =
     \<lparr>am_Role = RoleAssistant, am_Content = content, am_Api = model_Api model,
      am_Provider = model_Provider model, am_Model = model_ID model,
      am_Usage = zero_Usage\<lparr>usage_Input := 10, usage_Output := 5, usage_TotalTokens := 15\<rparr>,
      am_StopReason = reason, am_ErrorMessage = [], am_Timestamp = 1700000000000\<rparr>"

definition ex_event :: "gostring \<Rightarrow> AssistantMessageEvent" where
  \<comment> \<open>\<open>ai.AssistantMessageEvent{Type: t}\<close>\<close>
  "ex_event t =
     \<lparr>ame_Type = t, ame_ContentIndex = 0, ame_Delta = [], ame_Content = [],
      ame_Partial = None, ame_Message = None, ame_Error = None, ame_ToolCallData = None,
      ame_Reason = []\<rparr>"

definition ex_stream :: "AssistantMessage \<Rightarrow> Response" where
  \<comment> \<open>the provider pushes \<open>start\<close> and \<open>done\<close> with the same message\<close>
  "ex_stream msg =
     \<lparr>rs_Events = [(ex_event EventStart)\<lparr>ame_Partial := Some msg\<rparr>,
                   (ex_event EventDone)\<lparr>ame_Reason := am_StopReason msg, ame_Message := Some msg\<rparr>],
      rs_Closed = True,
      rs_Result = Some (Some msg)\<rparr>"

definition ex_streamFn :: "'w StreamFn" where
  "ex_streamFn model ctx opts w =
     (Some (ex_stream (ex_reply model [NewTextContent (str ''Hello! I'm a dummy response.'')]
                         StopReasonStop)), w)"

definition zero_SimpleStreamOptions :: SimpleStreamOptions where
  "zero_SimpleStreamOptions =
     \<lparr>sso_StreamOptions =
        \<lparr>so_Temperature = None, so_MaxTokens = None, so_ApiKey = [], so_CacheRetention = [],
         so_SessionID = [], so_Headers = [], so_MaxRetryDelayMs = None\<rparr>,
      sso_Reasoning = [], sso_ThinkingBudgets = None\<rparr>"

definition ex_config :: "'w AgentLoopConfig" where
  "ex_config =
     \<lparr>cfg_SimpleStreamOptions = zero_SimpleStreamOptions, cfg_Model = ex_model,
      cfg_ConvertToLLM = Some (\<lambda>ms w. (DefaultConvertToLLM ms, w)),
      cfg_TransformContext = None, cfg_GetApiKey = None,
      cfg_GetSteeringMessages = None, cfg_GetFollowUpMessages = None\<rparr>"

definition ex_user :: "gostring \<Rightarrow> AgentMessage" where
  \<comment> \<open>\<open>agent.NewAgentMessageFromMessage(ai.NewUserMessage(text))\<close>\<close>
  "ex_user text =
     NewAgentMessageFromMessage
       (msg_User \<lparr>um_Role = RoleUser, um_Content = [NewTextContent text],
                  um_Timestamp = 1700000000000\<rparr>)"

definition ex_context :: "'w AgentContext" where
  "ex_context =
     \<lparr>ctx_SystemPrompt = str ''You are helpful.'',
      ctx_Messages = [ex_user (str ''What is 2+2?'')], ctx_Tools = []\<rparr>"


definition ex_tool :: "gostring \<Rightarrow> 'w AgentTool" where
  "ex_tool name =
     \<lparr>at_Tool = \<lparr>tool_Name = name, tool_Description = [], tool_Parameters = []\<rparr>,
      at_Label = name,
      at_Execute = (\<lambda>toolCallID params w.
         (([], \<lparr>atr_Content = [NewTextContent (str ''ok'')], atr_Details = None\<rparr>, None), w))\<rparr>"

definition ex_scripted :: "AgentMessage list list QueueFn" where
  "ex_scripted w = (case w of [] \<Rightarrow> (([], None), []) | msgs # rest \<Rightarrow> ((msgs, None), rest))"

definition ex_call :: "gostring \<Rightarrow> gostring \<Rightarrow> ToolCall" where
  "ex_call tid name =
     \<lparr>tc_Type = ContentToolCall, tc_ID = tid, tc_Name = name, tc_Arguments = [],
      tc_ThoughtSignature = []\<rparr>"

definition ex_three_calls :: AssistantMessage where
  "ex_three_calls =
     ex_reply ex_model
       [NewToolCallContent (str ''t1'') (str ''echo'') [],
        NewToolCallContent (str ''t2'') (str ''echo'') [],
        NewToolCallContent (str ''t3'') (str ''echo'') []]
       StopReasonToolUse"

section \<open>Basic facts about the constants\<close>

lemma str_simps [simp]: "str [] = []" "str (c # cs) = of_char c # str cs"
  by (simp_all add: str_def)

lemmas Role_names = RoleUser_def RoleAssistant_def RoleToolResult_def

lemmas AgentEvent_names = AgentEventStart_def AgentEventEnd_def TurnEventStart_def
  TurnEventEnd_def MessageEventStart_def MessageEventUpdate_def MessageEventEnd_def
  ToolExecutionEventStart_def ToolExecutionEventUpdate_def ToolExecutionEventEnd_def

lemma AgentEvent_names_distinct [simp]:
  "AgentEventStart \<noteq> AgentEventEnd" "AgentEventStart \<noteq> TurnEventStart"
  "AgentEventStart \<noteq> TurnEventEnd" "AgentEventStart \<noteq> MessageEventStart"
  "AgentEventStart \<noteq> MessageEventUpdate" "AgentEventStart \<noteq> MessageEventEnd"
  "AgentEventStart \<noteq> ToolExecutionEventStart"
  "AgentEventStart \<noteq> ToolExecutionEventUpdate"
  "AgentEventStart \<noteq> ToolExecutionEventEnd" "AgentEventEnd \<noteq> AgentEventStart"
  "AgentEventEnd \<noteq> TurnEventStart" "AgentEventEnd \<noteq> TurnEventEnd"
  "AgentEventEnd \<noteq> MessageEventStart" "AgentEventEnd \<noteq> MessageEventUpdate"
  "AgentEventEnd \<noteq> MessageEventEnd" "AgentEventEnd \<noteq> ToolExecutionEventStart"
  "AgentEventEnd \<noteq> ToolExecutionEventUpdate"
  "AgentEventEnd \<noteq> ToolExecutionEventEnd" "TurnEventStart \<noteq> AgentEventStart"
  "TurnEventStart \<noteq> AgentEventEnd" "TurnEventStart \<noteq> TurnEventEnd"
  "TurnEventStart \<noteq> MessageEventStart" "TurnEventStart \<noteq> MessageEventUpdate"
  "TurnEventStart \<noteq> MessageEventEnd" "TurnEventStart \<noteq> ToolExecutionEventStart"
  "TurnEventStart \<noteq> ToolExecutionEventUpdate"
  "TurnEventStart \<noteq> ToolExecutionEventEnd" "TurnEventEnd \<noteq> AgentEventStart"
  "TurnEventEnd \<noteq> AgentEventEnd" "TurnEventEnd \<noteq> TurnEventStart"
  "TurnEventEnd \<noteq> MessageEventStart" "TurnEventEnd \<noteq> MessageEventUpdate"
  "TurnEventEnd \<noteq> MessageEventEnd" "TurnEventEnd \<noteq> ToolExecutionEventStart"
  "TurnEventEnd \<noteq> ToolExecutionEventUpdate"
  "TurnEventEnd \<noteq> ToolExecutionEventEnd" "MessageEventStart \<noteq> AgentEventStart"
  "MessageEventStart \<noteq> AgentEventEnd" "MessageEventStart \<noteq> TurnEventStart"
  "MessageEventStart \<noteq> TurnEventEnd" "MessageEventStart \<noteq> MessageEventUpdate"
  "MessageEventStart \<noteq> MessageEventEnd"
  "MessageEventStart \<noteq> ToolExecutionEventStart"
  "MessageEventStart \<noteq> ToolExecutionEventUpdate"
  "MessageEventStart \<noteq> ToolExecutionEventEnd"
  "MessageEventUpdate \<noteq> AgentEventStart" "MessageEventUpdate \<noteq> AgentEventEnd"
  "MessageEventUpdate \<noteq> TurnEventStart" "MessageEventUpdate \<noteq> TurnEventEnd"
  "MessageEventUpdate \<noteq> MessageEventStart"
  "MessageEventUpdate \<noteq> MessageEventEnd"
  "MessageEventUpdate \<noteq> ToolExecutionEventStart"
  "MessageEventUpdate \<noteq> ToolExecutionEventUpdate"
  "MessageEventUpdate \<noteq> ToolExecutionEventEnd"
  "MessageEventEnd \<noteq> AgentEventStart" "MessageEventEnd \<noteq> AgentEventEnd"
  "MessageEventEnd \<noteq> TurnEventStart" "MessageEventEnd \<noteq> TurnEventEnd"
  "MessageEventEnd \<noteq> MessageEventStart" "MessageEventEnd \<noteq> MessageEventUpdate"
  "MessageEventEnd \<noteq> ToolExecutionEventStart"
  "MessageEventEnd \<noteq> ToolExecutionEventUpdate"
  "MessageEventEnd \<noteq> ToolExecutionEventEnd"
  "ToolExecutionEventStart \<noteq> AgentEventStart"
  "ToolExecutionEventStart \<noteq> AgentEventEnd"
  "ToolExecutionEventStart \<noteq> TurnEventStart"
  "ToolExecutionEventStart \<noteq> TurnEventEnd"
  "ToolExecutionEventStart \<noteq> MessageEventStart"
  "ToolExecutionEventStart \<noteq> MessageEventUpdate"
  "ToolExecutionEventStart \<noteq> MessageEventEnd"
  "ToolExecutionEventStart \<noteq> ToolExecutionEventUpdate"
  "ToolExecutionEventStart \<noteq> ToolExecutionEventEnd"
  "ToolExecutionEventUpdate \<noteq> AgentEventStart"
  "ToolExecutionEventUpdate \<noteq> AgentEventEnd"
  "ToolExecutionEventUpdate \<noteq> TurnEventStart"
  "ToolExecutionEventUpdate \<noteq> TurnEventEnd"
  "ToolExecutionEventUpdate \<noteq> MessageEventStart"
  "ToolExecutionEventUpdate \<noteq> MessageEventUpdate"
  "ToolExecutionEventUpdate \<noteq> MessageEventEnd"
  "ToolExecutionEventUpdate \<noteq> ToolExecutionEventStart"
  "ToolExecutionEventUpdate \<noteq> ToolExecutionEventEnd"
  "ToolExecutionEventEnd \<noteq> AgentEventStart"
  "ToolExecutionEventEnd \<noteq> AgentEventEnd"
  "ToolExecutionEventEnd \<noteq> TurnEventStart"
  "ToolExecutionEventEnd \<noteq> TurnEventEnd"
  "ToolExecutionEventEnd \<noteq> MessageEventStart"
  "ToolExecutionEventEnd \<noteq> MessageEventUpdate"
  "ToolExecutionEventEnd \<noteq> MessageEventEnd"
  "ToolExecutionEventEnd \<noteq> ToolExecutionEventStart"
  "ToolExecutionEventEnd \<noteq> ToolExecutionEventUpdate"
  by (simp_all add: AgentEvent_names)

section \<open>The default converter and custom messages\<close>

text \<open>
  C4. The claim: the default converter leaves out every message whose custom payload is
  set. The code filters by role alone. Evaluated on a single message that wraps a user
  message and also carries a custom payload: \<open>IsLLMMessage\<close> rejects it, and
  \<open>DefaultConvertToLLM\<close> still passes its embedded message on to the LLM.
\<close>

theorem DefaultConvertToLLM_keeps_custom:
  "agm_Custom
     \<lparr>agm_Message = msg_User \<lparr>um_Role = RoleUser, um_Content = [NewTextContent (str ''hi'')],
                                um_Timestamp = 0\<rparr>,
      agm_Custom = Some (AString (str ''note''))\<rparr> \<noteq> None
   \<and> \<not> IsLLMMessage
     \<lparr>agm_Message = msg_User \<lparr>um_Role = RoleUser, um_Content = [NewTextContent (str ''hi'')],
                                um_Timestamp = 0\<rparr>,
      agm_Custom = Some (AString (str ''note''))\<rparr>
   \<and> DefaultConvertToLLM
     [\<lparr>agm_Message = msg_User \<lparr>um_Role = RoleUser, um_Content = [NewTextContent (str ''hi'')],
                                 um_Timestamp = 0\<rparr>,
       agm_Custom = Some (AString (str ''note''))\<rparr>]
     = ([msg_User \<lparr>um_Role = RoleUser, um_Content = [NewTextContent (str ''hi'')],
                   um_Timestamp = 0\<rparr>], None)"
  by (simp add: DefaultConvertToLLM_def IsLLMMessage_def Role_def msg_User_def Role_names)

section \<open>Abort\<close>

text \<open>
  C9. \<open>Abort\<close> cancels the context of the current run, when there is one, and leaves
  the facade as it was: every field, the steering queue and the follow-up queue among
  them, so that a later dequeue yields what it would have yielded before.
\<close>

theorem Abort_frame:
  "fst (Abort a cs) = a
   \<and> steeringQueue (fst (Abort a cs)) = steeringQueue a
   \<and> followUpQueue (fst (Abort a cs)) = followUpQueue a
   \<and> dequeueSteeringMessages (fst (Abort a cs)) = dequeueSteeringMessages a
   \<and> dequeueFollowUpMessages (fst (Abort a cs)) = dequeueFollowUpMessages a
   \<and> snd (Abort a cs) = (case abortCancel a of None \<Rightarrow> cs | Some c \<Rightarrow> insert c cs)"
  by (simp add: Abort_def split: option.split)

section \<open>Event stream: the result is resolved once\<close>

lemma End_resolved:
  "resultCh s = Some r0 \<Longrightarrow> once s \<Longrightarrow> End s r' = Returns s ()"
  by (simp add: End_def once_Do_close_def)

lemma later_Ends_resolved:
  "resultCh s = Some r0 \<Longrightarrow> once s \<Longrightarrow> later_Ends s rs = s"
  by (induction rs) (simp_all add: later_Ends_def End_resolved)

lemma End_first:
  "resultCh s = None \<Longrightarrow> \<not> once s \<Longrightarrow> \<not> ch_closed s \<Longrightarrow>
   End s r = Returns (s\<lparr>resultCh := Some r, once := True, ch_closed := True\<rparr>) ()"
  by (simp add: End_def once_Do_close_def)

lemma Push_terminal_first:
  "resultCh s = None \<Longrightarrow> \<not> once s \<Longrightarrow> \<not> ch_closed s \<Longrightarrow> isComplete s e \<Longrightarrow>
   length (ch s) < 64 \<Longrightarrow>
   Push s e = Returns (s\<lparr>resultCh := Some (extractResult s e), ch := ch s @ [e],
                          once := True, ch_closed := True\<rparr>) ()"
  by (simp add: Push_def chan_send_def once_Do_close_def)

text \<open>
  On a stream made by \<open>NewAssistantMessageEventStream\<close>, the result found after the
  first terminal event is the message extracted from that event.
\<close>

lemma Push_terminal_Result:
  "ame_isComplete e \<Longrightarrow>
   returned (Result (state_of (Push NewAssistantMessageEventStream e))) = Some (ame_extractResult e)"
  by (simp add: NewAssistantMessageEventStream_def NewEventStream_def Push_def chan_send_def
      once_Do_close_def Result_def)

text \<open>
  C10, as amended. On a stream that is not yet resolved (no result recorded, channel
  open), the first \<open>End r\<close>, or the first \<open>Push\<close> of a terminal event that finds room
  in the buffer, returns, records its result and closes the channel. From then on, as
  long as the result has not been received, every \<open>End r'\<close> returns and leaves the
  whole stream state as it is (result, closed channel, the \<open>once\<close> flag), however many
  follow; and \<open>Result()\<close> then returns the first recorded result, taking it out of the
  result channel.
\<close>

theorem EventStream_first_result_wins:
  assumes "resultCh s = None" and "\<not> once s" and "\<not> ch_closed s"
    and "first = End s r \<and> r0 = r
         \<or> isComplete s e \<and> length (ch s) < 64 \<and> first = Push s e \<and> r0 = extractResult s e"
  shows "\<exists>s1. first = Returns s1 ()
           \<and> resultCh s1 = Some r0 \<and> ch_closed s1 \<and> once s1
           \<and> (\<forall>r'. End s1 r' = Returns s1 ())
           \<and> (\<forall>rs. later_Ends s1 rs = s1)
           \<and> (\<forall>rs. Result (later_Ends s1 rs) = Returns (s1\<lparr>resultCh := None\<rparr>) r0)"
proof -
  from assms obtain s1 where s1:
    "first = Returns s1 ()" "resultCh s1 = Some r0" "ch_closed s1" "once s1"
    by (auto simp: End_first Push_terminal_first)
  have "later_Ends s1 rs = s1" for rs
    using s1 by (simp add: later_Ends_resolved)
  moreover have "Result s1 = Returns (s1\<lparr>resultCh := None\<rparr>) r0"
    using s1 by (simp add: Result_def)
  moreover have "End s1 r' = Returns s1 ()" for r'
    using s1 by (simp add: End_resolved)
  ultimately show ?thesis using s1 by simp
qed

text \<open>
  The theorem at the agent event stream, freshly made, with the terminal event
  \<open>agent_end\<close> pushed first.
\<close>

theorem EventStream_first_result_wins_witness:
  "\<exists>s1. Push NewAgentEventStream (AgentEvent0 AgentEventEnd) = Returns s1 ()
      \<and> resultCh s1 = Some [] \<and> ch_closed s1 \<and> once s1
      \<and> (\<forall>r'. End s1 r' = Returns s1 ())
      \<and> (\<forall>rs. later_Ends s1 rs = s1)
      \<and> (\<forall>rs. Result (later_Ends s1 rs) = Returns (s1\<lparr>resultCh := None\<rparr>) [])"
  using EventStream_first_result_wins
    [of NewAgentEventStream "Push NewAgentEventStream (AgentEvent0 AgentEventEnd)"
        "[]" "[]" "AgentEvent0 AgentEventEnd"]
  by (simp add: NewAgentEventStream_def NewEventStream_def AgentEvent0_def)

text \<open>
  The claim as stated fails once \<open>Result()\<close> has taken the result: on a fresh agent
  event stream, after \<open>End([])\<close> and one \<open>Result()\<close> (which returns the empty list), a
  later \<open>End\<close> with a one-message list changes the recorded result, and the next
  \<open>Result()\<close> returns that later list, not the first one.
\<close>

theorem End_after_Result_counterexample:
  "returned (Result (state_of (End NewAgentEventStream []))) = Some []
   \<and> resultCh (state_of (End (state_of (Result (state_of (End NewAgentEventStream []))))
                   [NewAgentMessageFromMessage (msg_Assistant None)]))
       \<noteq> resultCh (state_of (Result (state_of (End NewAgentEventStream []))))
   \<and> returned (Result (state_of (End (state_of (Result (state_of (End NewAgentEventStream []))))
                   [NewAgentMessageFromMessage (msg_Assistant None)])))
       = Some [NewAgentMessageFromMessage (msg_Assistant None)]
   \<and> [NewAgentMessageFromMessage (msg_Assistant None)] \<noteq> []"
  by (simp add: NewAgentEventStream_def NewEventStream_def End_def Result_def once_Do_close_def)

section \<open>Listener dispatch\<close>

lemma map_filter_dom:
  "set ks \<subseteq> dom m \<Longrightarrow> List.map_filter m ks = map (\<lambda>k. the (m k)) ks"
  by (induction ks) (auto simp: List.map_filter_simps)

text \<open>
  C7, as amended. For every event the facade dispatches, whatever order \<open>ks\<close> the
  iteration over the listener map takes, the snapshot holds the listener of every
  registered id exactly once (and nothing else), and the listeners are invoked one after
  the other in that order. The order is the map's iteration order, not the order of
  registration.
\<close>

theorem emitToListeners_each_once:
  assumes "range_order (listeners a) ks"
  shows "snapshotListeners a ks = map (\<lambda>k. the (listeners a k)) ks
         \<and> emitToListeners a event ks w = fold (\<lambda>k. the (listeners a k) event) ks w
         \<and> distinct ks \<and> set ks = dom (listeners a)
         \<and> length (snapshotListeners a ks) = card (dom (listeners a))"
proof -
  from assms have d: "distinct ks" and s: "set ks = dom (listeners a)"
    by (simp_all add: range_order_def)
  have snap: "snapshotListeners a ks = map (\<lambda>k. the (listeners a k)) ks"
    using s by (simp add: snapshotListeners_def map_filter_dom)
  have "emitToListeners a event ks w = fold (\<lambda>k. the (listeners a k) event) ks w"
    by (simp add: emitToListeners_def invokeListeners_def snap fold_map comp_def)
  moreover have "length (snapshotListeners a ks) = card (dom (listeners a))"
    using d s snap by (metis distinct_card length_map)
  ultimately show ?thesis using d s snap by simp
qed

text \<open>
  The theorem on an agent with one listener, which appends the type of the event it is
  given to a log.
\<close>

theorem emitToListeners_each_once_witness:
  "range_order
     (listeners (fst (Subscribe
        (NewAgent \<lparr>opt_InitialState = None, opt_ConvertToLLM = None, opt_TransformContext = None,
                   opt_SteeringMode = [], opt_FollowUpMode = [], opt_StreamFn = None,
                   opt_SessionID = [], opt_GetApiKey = None, opt_ThinkingBudgets = None,
                   opt_MaxRetryDelayMs = None\<rparr>)
        (\<lambda>e w. w @ [ev_Type e]))))
     [0]
   \<and> emitToListeners
     (fst (Subscribe
        (NewAgent \<lparr>opt_InitialState = None, opt_ConvertToLLM = None, opt_TransformContext = None,
                   opt_SteeringMode = [], opt_FollowUpMode = [], opt_StreamFn = None,
                   opt_SessionID = [], opt_GetApiKey = None, opt_ThinkingBudgets = None,
                   opt_MaxRetryDelayMs = None\<rparr>)
        (\<lambda>e w. w @ [ev_Type e])))
     (AgentEvent0 AgentEventStart) [0] [] = [AgentEventStart]"
  using emitToListeners_each_once
    [of "fst (Subscribe
        (NewAgent \<lparr>opt_InitialState = None, opt_ConvertToLLM = None, opt_TransformContext = None,
                   opt_SteeringMode = [], opt_FollowUpMode = [], opt_StreamFn = None,
                   opt_SessionID = [], opt_GetApiKey = None, opt_ThinkingBudgets = None,
                   opt_MaxRetryDelayMs = None\<rparr>)
        (\<lambda>e w. w @ [ev_Type e]))" "[0]" "AgentEvent0 AgentEventStart" "[]"]
  by (simp add: range_order_def Subscribe_def NewAgent_def AgentEvent0_def)

text \<open>
  The claim as stated fails: two listeners are subscribed to a new agent, the first
  (id 0) logs 1 and the second (id 1) logs 2. The order \<open>[1, 0]\<close> is an iteration
  order of the listener map, and with it the second listener runs before the first.
\<close>

theorem listener_order_counterexample:
  "snd (Subscribe
        (NewAgent \<lparr>opt_InitialState = None, opt_ConvertToLLM = None, opt_TransformContext = None,
                   opt_SteeringMode = [], opt_FollowUpMode = [], opt_StreamFn = None,
                   opt_SessionID = [], opt_GetApiKey = None, opt_ThinkingBudgets = None,
                   opt_MaxRetryDelayMs = None\<rparr>)
        (\<lambda>e w. w @ [1::nat])) = 0
   \<and> snd (Subscribe (fst (Subscribe
        (NewAgent \<lparr>opt_InitialState = None, opt_ConvertToLLM = None, opt_TransformContext = None,
                   opt_SteeringMode = [], opt_FollowUpMode = [], opt_StreamFn = None,
                   opt_SessionID = [], opt_GetApiKey = None, opt_ThinkingBudgets = None,
                   opt_MaxRetryDelayMs = None\<rparr>)
        (\<lambda>e w. w @ [1::nat]))) (\<lambda>e w. w @ [2])) = 1
   \<and> range_order
     (listeners (fst (Subscribe (fst (Subscribe
        (NewAgent \<lparr>opt_InitialState = None, opt_ConvertToLLM = None, opt_TransformContext = None,
                   opt_SteeringMode = [], opt_FollowUpMode = [], opt_StreamFn = None,
                   opt_SessionID = [], opt_GetApiKey = None, opt_ThinkingBudgets = None,
                   opt_MaxRetryDelayMs = None\<rparr>)
        (\<lambda>e w. w @ [1::nat]))) (\<lambda>e w. w @ [2]))))
     [1, 0]
   \<and> emitToListeners
     (fst (Subscribe (fst (Subscribe
        (NewAgent \<lparr>opt_InitialState = None, opt_ConvertToLLM = None, opt_TransformContext = None,
                   opt_SteeringMode = [], opt_FollowUpMode = [], opt_StreamFn = None,
                   opt_SessionID = [], opt_GetApiKey = None, opt_ThinkingBudgets = None,
                   opt_MaxRetryDelayMs = None\<rparr>)
        (\<lambda>e w. w @ [1::nat]))) (\<lambda>e w. w @ [2])))
     (AgentEvent0 AgentEventStart) [1, 0] [] = [2, 1]"
  by (auto simp add: range_order_def Subscribe_def NewAgent_def emitToListeners_def
      invokeListeners_def snapshotListeners_def List.map_filter_simps Let_def)

section \<open>Streaming JSON repair\<close>

lemma close_open_replicate: "close_open n c s = s @ replicate (nat n) c"
proof (induction n c s rule: close_open.induct)
  case (1 n c trimmed)
  show ?case
  proof (cases "n > 0")
    case True
    then have "nat n = Suc (nat (n - 1))" by simp
    with 1 True show ?thesis by (simp add: replicate_app_Cons_same)
  next
    case False
    then show ?thesis by simp
  qed
qed

lemma is_json_ws_IsSpace: "is_json_ws c \<Longrightarrow> IsSpace c"
  by (auto simp: is_json_ws_def IsSpace_def)

lemma TrimSpace_core:
  assumes "\<forall>c \<in> set l. is_json_ws c" "\<forall>c \<in> set r. is_json_ws c"
    and "core \<noteq> []" "\<not> IsSpace (hd core)" "\<not> IsSpace (last core)"
  shows "TrimSpace (l @ core @ r) = core"
proof -
  have l: "\<forall>c \<in> set l. IsSpace c" and r: "\<forall>c \<in> set (rev r). IsSpace c"
    using assms(1,2) by (simp_all add: is_json_ws_IsSpace)
  have "dropWhile IsSpace (l @ core @ r) = dropWhile IsSpace (core @ r)"
    using l by (simp add: dropWhile_append2)
  also have "\<dots> = core @ r"
    using assms(3,4) by (cases core) simp_all
  finally have 1: "dropWhile IsSpace (l @ core @ r) = core @ r" .
  have "dropWhile IsSpace (rev (core @ r)) = dropWhile IsSpace (rev core)"
    using r dropWhile_append2 [of "rev r" IsSpace "rev core"] by simp
  also have "\<dots> = rev core"
    using assms(3,5) by (cases "rev core") (simp_all add: last_rev hd_rev)
  finally show ?thesis by (simp add: TrimSpace_def 1)
qed

text \<open>
  C3. \<open>ParseStreamingJSON\<close> is a total function (its loops are the terminating
  recursions above) and always yields a map: either the empty map, or the map that a
  successful strict parse (\<open>json.Unmarshal\<close> without error) left behind; when both the
  strict parse of the trimmed input and the parse of the repaired text fail, it is the
  empty map. For an input \<open>s\<close> that is a valid JSON object, with strict parse \<open>m\<close>,
  the result is \<open>m\<close>. The strict parser is the library's and a parameter; of it the
  last part uses what RFC 8259 says of every object text: it is a block from \<open>{\<close> to
  \<open>}\<close> between runs of insignificant whitespace, which do not change the parse.
\<close>

theorem ParseStreamingJSON_total_exact:
  "(ParseStreamingJSON unmarshal s = Some []
      \<or> (\<exists>t. unmarshal t = (ParseStreamingJSON unmarshal s, None)))
   \<and> (snd (unmarshal (TrimSpace s)) \<noteq> None
        \<and> snd (unmarshal (repaired (TrimSpace s))) \<noteq> None
      \<longrightarrow> ParseStreamingJSON unmarshal s = Some [])
   \<and> (unmarshal s = (Some m, None)
        \<and> s = l @ core @ r \<and> (\<forall>c \<in> set l. is_json_ws c) \<and> (\<forall>c \<in> set r. is_json_ws c)
        \<and> core \<noteq> [] \<and> hd core = 123 \<and> last core = 125 \<and> unmarshal core = unmarshal s
      \<longrightarrow> ParseStreamingJSON unmarshal s = Some m)"
proof (intro conjI impI)
  show "ParseStreamingJSON unmarshal s = Some []
      \<or> (\<exists>t. unmarshal t = (ParseStreamingJSON unmarshal s, None))"
  proof (cases "TrimSpace s = []")
    case True
    then show ?thesis by (simp add: ParseStreamingJSON_def)
  next
    case False
    obtain res err where u: "unmarshal (TrimSpace s) = (res, err)" by (cases "unmarshal (TrimSpace s)")
    show ?thesis
    proof (cases err)
      case None
      then have "ParseStreamingJSON unmarshal s = res"
        using False u by (simp add: ParseStreamingJSON_def)
      then show ?thesis using u None by blast
    next
      case (Some e)
      obtain res2 err2 where u2: "unmarshal (repaired (TrimSpace s)) = (res2, err2)"
        by (cases "unmarshal (repaired (TrimSpace s))")
      show ?thesis
      proof (cases "err2 = None \<and> res2 \<noteq> None")
        case True
        then have "ParseStreamingJSON unmarshal s = res2"
          using False u Some u2 by (auto simp: ParseStreamingJSON_def tryRepairAndParse_def)
        then show ?thesis using u2 True by blast
      next
        case False
        then have "ParseStreamingJSON unmarshal s = Some []"
          using \<open>TrimSpace s \<noteq> []\<close> u Some u2
          by (auto simp: ParseStreamingJSON_def tryRepairAndParse_def split: option.splits)
        then show ?thesis by blast
      qed
    qed
  qed
next
  assume a: "snd (unmarshal (TrimSpace s)) \<noteq> None
        \<and> snd (unmarshal (repaired (TrimSpace s))) \<noteq> None"
  then show "ParseStreamingJSON unmarshal s = Some []"
    by (cases "unmarshal (TrimSpace s)"; cases "unmarshal (repaired (TrimSpace s))")
       (auto simp: ParseStreamingJSON_def tryRepairAndParse_def Let_def)
next
  assume a: "unmarshal s = (Some m, None)
        \<and> s = l @ core @ r \<and> (\<forall>c \<in> set l. is_json_ws c) \<and> (\<forall>c \<in> set r. is_json_ws c)
        \<and> core \<noteq> [] \<and> hd core = 123 \<and> last core = 125 \<and> unmarshal core = unmarshal s"
  then have "TrimSpace s = core"
    using TrimSpace_core [of l r core] by (simp add: IsSpace_def)
  moreover from a have "unmarshal s = (Some m, None)" and "unmarshal core = unmarshal s"
    by blast+
  then have "unmarshal core = (Some m, None)" by (simp only:)
  moreover from a have "core \<noteq> []" by blast
  ultimately show "ParseStreamingJSON unmarshal s = Some m"
    by (simp add: ParseStreamingJSON_def)
qed

text \<open>
  The theorem with a strict parser that accepts the empty object and nothing else: an
  empty object within whitespace is parsed as it is, and a truncated text that the repair
  cannot complete gives the empty map.
\<close>

theorem ParseStreamingJSON_total_exact_witness:
  "ParseStreamingJSON
     (\<lambda>t. if filter (\<lambda>c. \<not> is_json_ws c) t = str ''{}'' then (Some [], None)
           else (None, Some (str ''invalid character'')))
     (str '' { } \<newline>'') = Some []
   \<and> ParseStreamingJSON
     (\<lambda>t. if filter (\<lambda>c. \<not> is_json_ws c) t = str ''{}'' then (Some [], None)
           else (None, Some (str ''invalid character'')))
     (str ''{\"a\": tru'') = Some []"
proof -
  let ?u = "\<lambda>t. if filter (\<lambda>c. \<not> is_json_ws c) t = str ''{}'' then (Some [], None)
           else (None, Some (str ''invalid character''))"
  have valid: "?u (str '' { } \<newline>'') = (Some [], None)
        \<and> str '' { } \<newline>'' = str '' '' @ str ''{ }'' @ str '' \<newline>''
        \<and> (\<forall>c \<in> set (str '' ''). is_json_ws c) \<and> (\<forall>c \<in> set (str '' \<newline>''). is_json_ws c)
        \<and> str ''{ }'' \<noteq> [] \<and> hd (str ''{ }'') = 123 \<and> last (str ''{ }'') = 125
        \<and> ?u (str ''{ }'') = ?u (str '' { } \<newline>'')"
    by (simp add: is_json_ws_def)
  have "TrimSpace (str ''{\"a\": tru'') = str ''{\"a\": tru''"
    by (simp add: TrimSpace_def IsSpace_def)
  moreover have "repaired (str ''{\"a\": tru'') = str ''{\"a\": tru}''"
    by (simp add: repaired_def TrimRight_def TrimSuffix_def scan_all_def scan_step_def
        close_open_replicate)
  ultimately have failure: "snd (?u (TrimSpace (str ''{\"a\": tru''))) \<noteq> None
        \<and> snd (?u (repaired (TrimSpace (str ''{\"a\": tru'')))) \<noteq> None"
    by (simp add: is_json_ws_def)
  show ?thesis
    using ParseStreamingJSON_total_exact
        [of ?u "str '' { } \<newline>''" "[]" "str '' ''" "str ''{ }''" "str '' \<newline>''",
         THEN conjunct2, THEN conjunct2, THEN mp, OF valid]
      ParseStreamingJSON_total_exact
        [of ?u "str ''{\"a\": tru''", THEN conjunct2, THEN conjunct1, THEN mp, OF failure]
    by (rule conjI)
qed


section \<open>Events of the loop\<close>

lemma ev_Type_simps [simp]:
  "ev_Type (AgentEvent0 t) = t"
  "ev_Type (tool_start_event tc) = ToolExecutionEventStart"
  "ev_Type (tool_update_event tc p) = ToolExecutionEventUpdate"
  "ev_Type (tool_end_event tc res b) = ToolExecutionEventEnd"
  "ev_Type (turn_end_event am trs) = TurnEventEnd"
  "ev_Type (agent_end_event ms) = AgentEventEnd"
  "ev_Type (e\<lparr>ev_Message := m\<rparr>) = ev_Type e"
  "ev_Type (e\<lparr>ev_AssistantMessageEvent := a\<rparr>) = ev_Type e"
  by (simp_all add: AgentEvent0_def tool_start_event_def tool_update_event_def tool_end_event_def
      turn_end_event_def agent_end_event_def)

lemma ev_Messages_agent_end [simp]: "ev_Messages (agent_end_event ms) = ms"
  by (simp add: agent_end_event_def)

lemma finalised_simps [simp]:
  "finalised [] = []"
  "finalised (xs @ ys) = finalised xs @ finalised ys"
  "finalised (message_events m) = [m]"
  "finalised (tool_start_event tc # xs) = finalised xs"
  "finalised (tool_end_event tc res b # xs) = finalised xs"
  "finalised (turn_end_event am trs # xs) = finalised xs"
  "finalised (agent_end_event ms # xs) = finalised xs"
  "finalised (AgentEvent0 AgentEventStart # xs) = finalised xs"
  "finalised (AgentEvent0 TurnEventStart # xs) = finalised xs"
  "finalised ((AgentEvent0 MessageEventStart)\<lparr>ev_Message := mo\<rparr> # xs) = finalised xs"
  "finalised ((AgentEvent0 MessageEventUpdate)\<lparr>ev_AssistantMessageEvent := a, ev_Message := mo\<rparr> # xs)
     = finalised xs"
  "finalised ((AgentEvent0 MessageEventEnd)\<lparr>ev_Message := Some m\<rparr> # xs) = m # finalised xs"
  by (simp_all add: finalised_def message_events_def)

lemma finalised_updates [simp]: "finalised (map (tool_update_event tc) ps) = []"
  by (induction ps) (simp_all add: finalised_def)

lemma finalised_pending [simp]: "finalised (concat (map message_events ms)) = ms"
  by (induction ms) simp_all


section \<open>Tool execution\<close>

lemma ev_ToolCallID_simps [simp]:
  "ev_ToolCallID (tool_start_event tc) = tc_ID tc"
  "ev_ToolCallID (tool_end_event tc res b) = tc_ID tc"
  by (simp_all add: AgentEvent0_def tool_start_event_def tool_end_event_def)

lemma tool_boundaries_simps [simp]:
  "tool_boundaries [] = []"
  "tool_boundaries (xs @ ys) = tool_boundaries xs @ tool_boundaries ys"
  "tool_boundaries (tool_start_event tc # xs)
     = (ToolExecutionEventStart, tc_ID tc) # tool_boundaries xs"
  "tool_boundaries (tool_end_event tc res b # xs)
     = (ToolExecutionEventEnd, tc_ID tc) # tool_boundaries xs"
  "tool_boundaries (message_events m) = []"
  "tool_boundaries (map (tool_update_event tc) ps) = []"
  by (simp_all add: tool_boundaries_def message_events_def filter_empty_conv)

lemma skipToolCall_result:
  assumes "skipToolCall lib tc w = ((r, evs), w1)"
  shows "tr_ToolCallID r = tc_ID tc" "tr_IsError r" "tr_Content r = [NewTextContent skip_text]"
    "tool_boundaries evs = start_end_pair tc"
    "finalised evs = [tool_result_message r]"
  using assms
  by (auto simp: skipToolCall_def Let_def skip_text_def start_end_pair_def
      tool_result_message_def split: prod.splits)

lemma runToolCall_result:
  assumes "runToolCall lib tools tc w = ((r, evs), w1)"
  shows "tr_ToolCallID r = tc_ID tc" "tool_boundaries evs = start_end_pair tc"
    "finalised evs = [tool_result_message r]"
  using assms
  by (auto simp: runToolCall_def Let_def start_end_pair_def tool_result_message_def
      split: prod.splits option.splits)

lemma skipRemaining_result:
  assumes "skipRemaining lib tcs w = ((rs, evs), w1)"
  shows "map tr_ToolCallID rs = map tc_ID tcs
         \<and> (\<forall>x \<in> set rs. tr_IsError x \<and> tr_Content x = [NewTextContent skip_text])
         \<and> tool_boundaries evs = concat (map start_end_pair tcs)
         \<and> finalised evs = map tool_result_message rs"
  using assms
proof (induction tcs arbitrary: w rs evs w1)
  case Nil
  then show ?case by simp
next
  case (Cons tc rest)
  obtain r ev wa where one: "skipToolCall lib tc w = ((r, ev), wa)"
    by (metis prod.exhaust)
  obtain rs' evs' wb where more: "skipRemaining lib rest wa = ((rs', evs'), wb)"
    by (metis prod.exhaust)
  from Cons.prems one more have eq: "rs = r # rs'" "evs = ev @ evs'" by simp_all
  show ?case
    using Cons.IH [OF more] skipToolCall_result [OF one] by (simp add: eq)
qed

lemma runToolCalls_shape:
  assumes "runToolCalls lib tools g tcs w = (((rs, st), evs), w1)"
  shows "map tr_ToolCallID rs = map tc_ID tcs
         \<and> tool_boundaries evs = concat (map start_end_pair tcs)
         \<and> finalised evs = map tool_result_message rs"
  using assms
proof (induction tcs arbitrary: w rs st evs w1)
  case Nil
  then show ?case by simp
next
  case (Cons tc rest)
  obtain r ev wa where one: "runToolCall lib tools tc w = ((r, ev), wa)"
    by (metis prod.exhaust)
  obtain steering err wb where poll:
    "(case g of None \<Rightarrow> (([], None), wa) | Some get \<Rightarrow> get wa) = ((steering, err), wb)"
    by (metis prod.exhaust)
  show ?case
  proof (cases "g \<noteq> None \<and> err = None \<and> steering \<noteq> []")
    case True
    obtain rs' evs' wc where skip: "skipRemaining lib rest wb = ((rs', evs'), wc)"
      by (metis prod.exhaust)
    from Cons.prems one poll True skip have eq: "rs = r # rs'" "evs = ev @ evs'"
      by simp_all
    show ?thesis
      using skipRemaining_result [OF skip] runToolCall_result [OF one] by (simp add: eq)
  next
    case False
    obtain rs' st' evs' wc where more:
      "runToolCalls lib tools g rest wb = (((rs', st'), evs'), wc)"
      by (metis prod.exhaust)
    from Cons.prems one poll False more have eq: "rs = r # rs'" "evs = ev @ evs'"
      by auto
    show ?thesis
      using Cons.IH [OF more] runToolCall_result [OF one] by (simp add: eq)
  qed
qed

lemma runToolCalls_append:
  assumes "runToolCalls lib tools g pre w = (((rs, []), evs), w1)"
    and "runToolCalls lib tools g rest w1 = (((rs', st), evs'), w2)"
  shows "runToolCalls lib tools g (pre @ rest) w = (((rs @ rs', st), evs @ evs'), w2)"
  using assms
proof (induction pre arbitrary: w rs evs)
  case Nil
  then show ?case by simp
next
  case (Cons tc pre)
  obtain r ev wa where one: "runToolCall lib tools tc w = ((r, ev), wa)"
    by (metis prod.exhaust)
  obtain steering err wb where poll:
    "(case g of None \<Rightarrow> (([], None), wa) | Some get \<Rightarrow> get wa) = ((steering, err), wb)"
    by (metis prod.exhaust)
  show ?case
  proof (cases "g \<noteq> None \<and> err = None \<and> steering \<noteq> []")
    case True
    obtain rs'' evs'' wc where skip: "skipRemaining lib pre wb = ((rs'', evs''), wc)"
      by (metis prod.exhaust)
    from Cons.prems(1) one poll True skip have "steering = []" by simp
    with True show ?thesis by simp
  next
    case False
    obtain rs'' st'' evs'' wc where more:
      "runToolCalls lib tools g pre wb = (((rs'', st''), evs''), wc)"
      by (metis prod.exhaust)
    from Cons.prems(1) one poll False more
    have eq: "rs = r # rs''" "evs = ev @ evs''" "st'' = []" "wc = w1"
      by auto
    have "runToolCalls lib tools g (pre @ rest) wb = (((rs'' @ rs', st), evs'' @ evs'), w2)"
      using Cons.IH [of wb rs'' evs''] more eq Cons.prems(2) by simp
    then show ?thesis
      using one poll False by (auto simp: eq)
  qed
qed

text \<open>
  C1. An assistant message carries the tool calls \<open>pre @ tc # post\<close>; the calls of
  \<open>pre\<close> run without an interruption and give the results \<open>rs\<close>, the next call \<open>tc\<close>
  (the k-th, \<open>k = length pre + 1\<close>) gives \<open>r\<close>, and the steering provider, polled after
  it, returns a non-empty list without error. Then \<open>executeToolCalls\<close> returns one
  result per call, in call order: the real outcomes \<open>rs\<close> and \<open>r\<close>, then one skipped
  result for every call of \<open>post\<close>, each with \<open>is_error\<close> set and the skip text as its
  only content; it returns the steering messages; and the events it pushes hold one
  \<open>tool_execution_start\<close> / \<open>tool_execution_end\<close> pair for every call, the skipped
  ones included, in call order.
\<close>

theorem executeToolCalls_skip_symmetry:
  assumes calls: "toolCallsOf (am_Content assistantMsg) = pre @ tc # post"
    and before: "runToolCalls lib tools (Some get) pre w = (((rs, []), evs), w1)"
    and kth: "runToolCall lib tools tc w1 = ((r, ev), w2)"
    and steer: "get w2 = ((steering, None), w3)" "steering \<noteq> []"
  shows "\<exists>skipped sevs w4.
           executeToolCalls lib tools assistantMsg (Some get) w
             = (((rs @ r # skipped, steering), evs @ ev @ sevs), w4)
           \<and> skipRemaining lib post w3 = ((skipped, sevs), w4)
           \<and> length (rs @ r # skipped) = length (toolCallsOf (am_Content assistantMsg))
           \<and> length rs = length pre
           \<and> map tr_ToolCallID (rs @ r # skipped)
               = map tc_ID (toolCallsOf (am_Content assistantMsg))
           \<and> (\<forall>x \<in> set skipped. tr_IsError x \<and> tr_Content x = [NewTextContent skip_text])
           \<and> tool_boundaries (evs @ ev @ sevs)
               = concat (map start_end_pair (toolCallsOf (am_Content assistantMsg)))"
proof -
  obtain skipped sevs w4 where skip: "skipRemaining lib post w3 = ((skipped, sevs), w4)"
    by (metis prod.exhaust)
  have rest: "runToolCalls lib tools (Some get) (tc # post) w1
                = (((r # skipped, steering), ev @ sevs), w4)"
    using kth steer skip by simp
  have all: "runToolCalls lib tools (Some get) (pre @ tc # post) w
               = (((rs @ r # skipped, steering), evs @ ev @ sevs), w4)"
    using runToolCalls_append [OF before rest] .
  then have run: "executeToolCalls lib tools assistantMsg (Some get) w
               = (((rs @ r # skipped, steering), evs @ ev @ sevs), w4)"
    by (simp add: executeToolCalls_def calls)
  have ids: "map tr_ToolCallID (rs @ r # skipped) = map tc_ID (pre @ tc # post)"
    and bounds: "tool_boundaries (evs @ ev @ sevs) = concat (map start_end_pair (pre @ tc # post))"
    using runToolCalls_shape [OF all] by blast+
  have len: "length (rs @ r # skipped) = length (pre @ tc # post)"
    using ids by (metis length_map)
  have lenpre: "length rs = length pre"
    using runToolCalls_shape [OF before] by (metis length_map)
  have sk: "\<forall>x \<in> set skipped. tr_IsError x \<and> tr_Content x = [NewTextContent skip_text]"
    using skipRemaining_result [OF skip] by blast
  show ?thesis
    using run skip ids bounds len lenpre sk unfolding calls by blast
qed

text \<open>
  The theorem at a batch of three calls of one tool: the steering provider answers with
  nothing after the first call and with a user message after the second, so \<open>pre\<close> is
  the first call, \<open>tc\<close> the second and \<open>post\<close> the third.
\<close>

theorem executeToolCalls_skip_symmetry_witness:
  "\<exists>skipped sevs w4.
     executeToolCalls ex_lib [ex_tool (str ''echo'')] ex_three_calls (Some ex_scripted)
         [[], [ex_user (str ''stop'')]]
       = (((fst (fst (fst (runToolCalls ex_lib [ex_tool (str ''echo'')] (Some ex_scripted)
                             [ex_call (str ''t1'') (str ''echo'')] [[], [ex_user (str ''stop'')]])))
            @ fst (fst (runToolCall ex_lib [ex_tool (str ''echo'')]
                          (ex_call (str ''t2'') (str ''echo'')) [[ex_user (str ''stop'')]]))
            # skipped,
           [ex_user (str ''stop'')]),
          snd (fst (runToolCalls ex_lib [ex_tool (str ''echo'')] (Some ex_scripted)
                             [ex_call (str ''t1'') (str ''echo'')] [[], [ex_user (str ''stop'')]]))
          @ snd (fst (runToolCall ex_lib [ex_tool (str ''echo'')]
                          (ex_call (str ''t2'') (str ''echo'')) [[ex_user (str ''stop'')]]))
          @ sevs), w4)
     \<and> skipRemaining ex_lib [ex_call (str ''t3'') (str ''echo'')] [] = ((skipped, sevs), w4)
     \<and> length (fst (fst (fst (runToolCalls ex_lib [ex_tool (str ''echo'')] (Some ex_scripted)
                             [ex_call (str ''t1'') (str ''echo'')] [[], [ex_user (str ''stop'')]])))
            @ fst (fst (runToolCall ex_lib [ex_tool (str ''echo'')]
                          (ex_call (str ''t2'') (str ''echo'')) [[ex_user (str ''stop'')]]))
            # skipped)
         = length (toolCallsOf (am_Content ex_three_calls))
     \<and> length (fst (fst (fst (runToolCalls ex_lib [ex_tool (str ''echo'')] (Some ex_scripted)
                             [ex_call (str ''t1'') (str ''echo'')] [[], [ex_user (str ''stop'')]]))))
         = length [ex_call (str ''t1'') (str ''echo'')]
     \<and> map tr_ToolCallID
           (fst (fst (fst (runToolCalls ex_lib [ex_tool (str ''echo'')] (Some ex_scripted)
                             [ex_call (str ''t1'') (str ''echo'')] [[], [ex_user (str ''stop'')]])))
            @ fst (fst (runToolCall ex_lib [ex_tool (str ''echo'')]
                          (ex_call (str ''t2'') (str ''echo'')) [[ex_user (str ''stop'')]]))
            # skipped)
         = map tc_ID (toolCallsOf (am_Content ex_three_calls))
     \<and> (\<forall>x \<in> set skipped. tr_IsError x \<and> tr_Content x = [NewTextContent skip_text])
     \<and> tool_boundaries
           (snd (fst (runToolCalls ex_lib [ex_tool (str ''echo'')] (Some ex_scripted)
                             [ex_call (str ''t1'') (str ''echo'')] [[], [ex_user (str ''stop'')]]))
            @ snd (fst (runToolCall ex_lib [ex_tool (str ''echo'')]
                          (ex_call (str ''t2'') (str ''echo'')) [[ex_user (str ''stop'')]]))
            @ sevs)
         = concat (map start_end_pair (toolCallsOf (am_Content ex_three_calls)))"
proof -
  let ?tools = "[ex_tool (str ''echo'')] :: AgentMessage list list AgentTool list"
  let ?w = "[[], [ex_user (str ''stop'')]]"
  let ?pre = "[ex_call (str ''t1'') (str ''echo'')]"
  let ?tc = "ex_call (str ''t2'') (str ''echo'')"
  let ?post = "[ex_call (str ''t3'') (str ''echo'')]"
  let ?before = "runToolCalls ex_lib ?tools (Some ex_scripted) ?pre ?w"
  let ?kth = "runToolCall ex_lib ?tools ?tc [[ex_user (str ''stop'')]]"
  have calls: "toolCallsOf (am_Content ex_three_calls) = ?pre @ ?tc # ?post"
    by code_simp
  have before: "?before = (((fst (fst (fst ?before)), []), snd (fst ?before)),
                           [[ex_user (str ''stop'')]])"
    by code_simp
  have kth: "?kth = ((fst (fst ?kth), snd (fst ?kth)), [[ex_user (str ''stop'')]])"
    by code_simp
  have steer: "ex_scripted [[ex_user (str ''stop'')]] = (([ex_user (str ''stop'')], None), [])"
    "[ex_user (str ''stop'')] \<noteq> []"
    by (simp_all add: ex_scripted_def)
  show ?thesis
    by (rule executeToolCalls_skip_symmetry [OF calls before kth steer])
qed

text \<open>The same batch, evaluated: two real results and one skipped.\<close>

lemma ex_batch_outcome:
  "map (\<lambda>r. (tr_ToolCallID r, tr_IsError r, tr_Content r))
     (fst (fst (fst (executeToolCalls ex_lib [ex_tool (str ''echo'')] ex_three_calls
        (Some ex_scripted) [[], [ex_user (str ''stop'')]]))))
   = [(str ''t1'', False, [NewTextContent (str ''ok'')]),
      (str ''t2'', False, [NewTextContent (str ''ok'')]),
      (str ''t3'', True, [NewTextContent (str ''Skipped due to queued user message.'')])]"
  by code_simp


section \<open>The message ledger\<close>

lemmas AssistantEvent_names = EventStart_def EventTextStart_def EventTextDelta_def
  EventTextEnd_def EventThinkingStart_def EventThinkingDelta_def EventThinkingEnd_def
  EventToolCallStart_def EventToolCallDelta_def EventToolCallEnd_def EventDone_def EventError_def

lemma terminal_not_other [simp]:
  "EventDone \<noteq> EventStart" "EventError \<noteq> EventStart"
  "EventStart \<noteq> EventDone" "EventStart \<noteq> EventError"
  "\<not> is_delta_event EventDone" "\<not> is_delta_event EventError"
  by (simp_all add: is_delta_event_def AssistantEvent_names)






lemma finalised_turn_start [simp]:
  "finalised (if b then [AgentEvent0 TurnEventStart] else []) = []"
  by simp



text \<open>
  The fuel only bounds the number of turns: a run that does not stop for lack of fuel
  is the same run with any larger amount.
\<close>

lemma runTurns_fuel:
  "run_status (runTurns n lib config sf ctx0 first pending sat cm nm w) \<noteq> OutOfFuel
   \<Longrightarrow> runTurns (n + k) lib config sf ctx0 first pending sat cm nm w
       = runTurns n lib config sf ctx0 first pending sat cm nm w"
proof (induction n arbitrary: first pending sat cm nm w)
  case 0
  then show ?case by simp
next
  case (Suc n)
  let ?before = "(if \<not> first then [AgentEvent0 TurnEventStart] else []) @ concat (map message_events pending)"
  obtain out cm1 evs w1 where s:
    "streamAssistantResponse (ctx0\<lparr>ctx_Messages := cm @ pending\<rparr>) config sf w
       = ((out, cm1, evs), w1)"
    by (metis prod.exhaust)
  show ?case
  proof (cases out)
    case (Failed err)
    then show ?thesis using s by (simp add: Let_def split: prod.splits)
  next
    case Panic
    then show ?thesis using s by (simp add: Let_def)
  next
    case Blocked
    then show ?thesis using s by (simp add: Let_def)
  next
    case (Ok final)
    show ?thesis
    proof (cases final)
      case None
      then show ?thesis using s Ok by (simp add: Let_def)
    next
      case (Some message)
      show ?thesis
      proof (cases "am_StopReason message = StopReasonError
                    \<or> am_StopReason message = StopReasonAborted")
        case True
        then show ?thesis using s Ok Some by (auto simp: Let_def)
      next
        case cont: False
        let ?has = "toolCallsOf (am_Content message) \<noteq> []"
        obtain trs sat1 tevs w2 where t:
          "(if ?has then executeToolCalls lib (ctx_Tools ctx0) message
                                    (cfg_GetSteeringMessages config) w1
            else ((([], sat), []), w1)) = (((trs, sat1), tevs), w2)"
          by (metis prod.exhaust)
        obtain pend2 sat2 w3 where p:
          "(if sat1 \<noteq> [] then ((sat1, []), w2)
            else (case poll (cfg_GetSteeringMessages config) [] w2 of
                    (pending, w3) \<Rightarrow> ((pending, sat1), w3))) = ((pend2, sat2), w3)"
          by (metis prod.exhaust)
        let ?nm = "nm @ pending @ [assistant_message (Some message)] @ map tool_result_message trs"
        let ?cm = "cm1 @ map tool_result_message trs"
        let ?turn = "?before @ evs @ tevs @ [turn_end_event (assistant_message (Some message)) trs]"
        show ?thesis
        proof (cases "?has \<or> pend2 \<noteq> []")
          case True
          have eq: "runTurns (Suc m) lib config sf ctx0 first pending sat cm nm w
                  = (runTurns m lib config sf ctx0 False pend2 sat2 ?cm ?nm w3)
                      \<lparr>run_events := ?turn @ run_events
                         (runTurns m lib config sf ctx0 False pend2 sat2 ?cm ?nm w3)\<rparr>" for m
            using s Ok Some cont t p True by (simp add: Let_def)
          from Suc.prems have "run_status (runTurns n lib config sf ctx0 False pend2 sat2 ?cm ?nm w3)
               \<noteq> OutOfFuel"
            unfolding eq by simp
          from Suc.IH [OF this] show ?thesis
            unfolding add_Suc eq by simp
        next
          case False
          obtain followUp ferr w4 where f:
            "(case cfg_GetFollowUpMessages config of
                None \<Rightarrow> (([], None), w3)
              | Some get \<Rightarrow> get w3) = ((followUp, ferr), w4)"
            by (metis prod.exhaust)
          show ?thesis
          proof (cases "cfg_GetFollowUpMessages config \<noteq> None \<and> ferr = None \<and> followUp \<noteq> []")
            case True
            have eq: "runTurns (Suc m) lib config sf ctx0 first pending sat cm nm w
                  = (runTurns m lib config sf ctx0 False followUp [] ?cm ?nm w4)
                      \<lparr>run_events := ?turn @ run_events
                         (runTurns m lib config sf ctx0 False followUp [] ?cm ?nm w4)\<rparr>" for m
              using s Ok Some cont t p \<open>\<not> (?has \<or> pend2 \<noteq> [])\<close> f True by (simp add: Let_def)
            from Suc.prems have "run_status (runTurns n lib config sf ctx0 False followUp [] ?cm ?nm w4)
               \<noteq> OutOfFuel"
              unfolding eq by simp
            from Suc.IH [OF this] show ?thesis
              unfolding add_Suc eq by simp
          next
            case nofollow: False
            have eq: "runTurns (Suc m) lib config sf ctx0 first pending sat cm nm w
                  = \<lparr>run_status = Finished, run_events = ?turn @ [agent_end_event ?nm],
                     run_newMessages = ?nm, run_context = ?cm, run_world = w4\<rparr>" for m
              using s Ok Some cont t p \<open>\<not> (?has \<or> pend2 \<noteq> [])\<close> f nofollow
              by (auto simp: Let_def)
            show ?thesis
              unfolding add_Suc eq by simp
          qed
        qed
      qed
    qed
  qed
qed

lemma runLoop_fuel:
  "run_status (runLoop n lib ctx nm config sf w) \<noteq> OutOfFuel
   \<Longrightarrow> runLoop (n + k) lib ctx nm config sf w = runLoop n lib ctx nm config sf w"
  by (simp add: runLoop_def runTurns_fuel split: prod.splits)


lemma AgentLoopContinue_Inl:
  "ctx_Messages agentCtx = [] \<or> Role (agm_Message (last (ctx_Messages agentCtx))) = RoleAssistant
   \<Longrightarrow> isl (AgentLoopContinue fuel lib agentCtx config streamFn w)"
  by (auto simp: AgentLoopContinue_def)

lemma AgentLoopContinue_Inr:
  "\<not> (ctx_Messages agentCtx = []
       \<or> Role (agm_Message (last (ctx_Messages agentCtx))) = RoleAssistant)
   \<Longrightarrow> AgentLoopContinue fuel lib agentCtx config streamFn w
       = Inr ((runLoop fuel lib agentCtx [] config streamFn w)
                \<lparr>run_events := [AgentEvent0 AgentEventStart, AgentEvent0 TurnEventStart]
                   @ run_events (runLoop fuel lib agentCtx [] config streamFn w)\<rparr>)"
  by (simp add: AgentLoopContinue_def Let_def)







section \<open>Continuing a run\<close>

text \<open>
  C5. \<open>AgentLoopContinue\<close> returns an error exactly when the context has no messages
  or its last message is an assistant message; it then returns the error alone, with no
  stream and no event. In every other case it returns the stream of a run that starts
  as any run does: \<open>agent_start\<close>, \<open>turn_start\<close>, then the loop on the given context
  with an empty list of new messages.
\<close>

theorem AgentLoopContinue_fails_iff:
  "(isl (AgentLoopContinue fuel lib agentCtx config streamFn w)
      \<longleftrightarrow> ctx_Messages agentCtx = []
          \<or> Role (agm_Message (last (ctx_Messages agentCtx))) = RoleAssistant)
   \<and> (\<not> isl (AgentLoopContinue fuel lib agentCtx config streamFn w) \<longrightarrow>
        AgentLoopContinue fuel lib agentCtx config streamFn w
          = Inr ((runLoop fuel lib agentCtx [] config streamFn w)
                   \<lparr>run_events := [AgentEvent0 AgentEventStart, AgentEvent0 TurnEventStart]
                      @ run_events (runLoop fuel lib agentCtx [] config streamFn w)\<rparr>))"
proof (cases "ctx_Messages agentCtx = []
       \<or> Role (agm_Message (last (ctx_Messages agentCtx))) = RoleAssistant")
  case True
  then show ?thesis
    using AgentLoopContinue_Inl [OF True, of fuel lib config streamFn w] by simp
next
  case False
  then show ?thesis
    using AgentLoopContinue_Inr [OF False, of fuel lib config streamFn w] by simp
qed


text \<open>
  The theorem at the context of the example program, whose last message is a user
  message, and at the same context without messages.
\<close>

theorem AgentLoopContinue_fails_iff_witness:
  "\<not> isl (AgentLoopContinue 1 ex_lib ex_context ex_config (Some ex_streamFn) ())
   \<and> AgentLoopContinue 1 ex_lib ex_context ex_config (Some ex_streamFn) ()
       = Inr ((runLoop 1 ex_lib ex_context [] ex_config (Some ex_streamFn) ())
                \<lparr>run_events := [AgentEvent0 AgentEventStart, AgentEvent0 TurnEventStart]
                   @ run_events (runLoop 1 ex_lib ex_context [] ex_config (Some ex_streamFn) ())\<rparr>)
   \<and> isl (AgentLoopContinue 1 ex_lib (ex_context\<lparr>ctx_Messages := []\<rparr>) ex_config
            (Some ex_streamFn) ())"
proof -
  have user: "\<not> (ctx_Messages (ex_context :: unit AgentContext) = []
       \<or> Role (agm_Message (last (ctx_Messages (ex_context :: unit AgentContext)))) = RoleAssistant)"
    by (simp add: ex_context_def ex_user_def NewAgentMessageFromMessage_def msg_User_def
        Role_def Role_names)
  have none: "ctx_Messages ((ex_context :: unit AgentContext)\<lparr>ctx_Messages := []\<rparr>) = []"
    by simp
  show ?thesis
    using AgentLoopContinue_fails_iff [of 1 ex_lib ex_context ex_config "Some ex_streamFn" "()"]
      AgentLoopContinue_fails_iff
        [of 1 ex_lib "ex_context\<lparr>ctx_Messages := []\<rparr>" ex_config "Some ex_streamFn" "()"]
      user none
    by blast
qed

section \<open>The matcher decides the language of the expression\<close>

lemma nullable_lang: "nullable r \<longleftrightarrow> [] \<in> lang r"
  by (induction r) (auto intro: star.star_nil)

lemma star_cons:
  "d # w \<in> star A \<longleftrightarrow> (\<exists>u v. w = u @ v \<and> d # u \<in> A \<and> v \<in> star A)"
proof
  assume "d # w \<in> star A"
  then show "\<exists>u v. w = u @ v \<and> d # u \<in> A \<and> v \<in> star A"
  proof (induction "d # w" arbitrary: w rule: star.induct)
    case (star_app u v)
    then show ?case by (cases u) auto
  qed
next
  assume "\<exists>u v. w = u @ v \<and> d # u \<in> A \<and> v \<in> star A"
  then obtain u v where "w = u @ v" "d # u \<in> A" "v \<in> star A" by blast
  then show "d # w \<in> star A" using star.star_app [of "d # u" A v] by simp
qed

lemma lang_Seq:
  "w \<in> lang (Seq r s) \<longleftrightarrow> (\<exists>u v. w = u @ v \<and> u \<in> lang r \<and> v \<in> lang s)"
  by simp

lemma lang_Seq_Cons:
  "d # w \<in> lang (Seq r s) \<longleftrightarrow>
   ([] \<in> lang r \<and> d # w \<in> lang s) \<or> (\<exists>u v. w = u @ v \<and> d # u \<in> lang r \<and> v \<in> lang s)"
proof
  assume "d # w \<in> lang (Seq r s)"
  then obtain x v where xv: "d # w = x @ v" "x \<in> lang r" "v \<in> lang s"
    unfolding lang_Seq by blast
  show "([] \<in> lang r \<and> d # w \<in> lang s) \<or> (\<exists>u v. w = u @ v \<and> d # u \<in> lang r \<and> v \<in> lang s)"
  proof (cases x)
    case Nil
    then show ?thesis using xv by simp
  next
    case (Cons a u)
    then have "w = u @ v \<and> d # u \<in> lang r \<and> v \<in> lang s" using xv by simp
    then show ?thesis by blast
  qed
next
  assume "([] \<in> lang r \<and> d # w \<in> lang s) \<or> (\<exists>u v. w = u @ v \<and> d # u \<in> lang r \<and> v \<in> lang s)"
  then show "d # w \<in> lang (Seq r s)"
  proof
    assume "[] \<in> lang r \<and> d # w \<in> lang s"
    then have "d # w = [] @ (d # w) \<and> [] \<in> lang r \<and> d # w \<in> lang s" by simp
    then show ?thesis unfolding lang_Seq by blast
  next
    assume "\<exists>u v. w = u @ v \<and> d # u \<in> lang r \<and> v \<in> lang s"
    then obtain u v where "w = u @ v" "d # u \<in> lang r" "v \<in> lang s" by blast
    then have "d # w = (d # u) @ v \<and> d # u \<in> lang r \<and> v \<in> lang s" by simp
    then show ?thesis unfolding lang_Seq by blast
  qed
qed

lemma deriv_lang: "w \<in> lang (deriv d r) \<longleftrightarrow> d # w \<in> lang r"
proof (induction r arbitrary: w)
  case Zero
  show ?case by simp
next
  case One
  show ?case by simp
next
  case (Atom a)
  show ?case by simp
next
  case (Seq r s)
  have "w \<in> lang (deriv d (Seq r s)) \<longleftrightarrow>
        (nullable r \<and> w \<in> lang (deriv d s))
        \<or> (\<exists>u v. w = u @ v \<and> u \<in> lang (deriv d r) \<and> v \<in> lang s)"
    by (cases "nullable r") (simp_all, blast)
  then show ?case
    unfolding lang_Seq_Cons Seq.IH nullable_lang by blast
next
  case (Alt r s)
  then show ?case by simp
next
  case (Star r)
  have "w \<in> lang (deriv d (Star r)) \<longleftrightarrow>
        (\<exists>u v. w = u @ v \<and> u \<in> lang (deriv d r) \<and> v \<in> star (lang r))"
    by simp
  then show ?case
    unfolding Star.IH by (simp add: star_cons)
qed

lemma match_prefix_lang: "match_prefix r s \<longleftrightarrow> (\<exists>u v. s = u @ v \<and> u \<in> lang r)"
proof (induction s arbitrary: r)
  case Nil
  then show ?case by (simp add: nullable_lang)
next
  case (Cons c cs)
  show ?case
  proof
    assume "match_prefix r (c # cs)"
    then consider "nullable r" | "match_prefix (deriv c r) cs" by auto
    then show "\<exists>u v. c # cs = u @ v \<and> u \<in> lang r"
    proof cases
      case 1
      then have "c # cs = [] @ (c # cs) \<and> [] \<in> lang r" by (simp add: nullable_lang)
      then show ?thesis by blast
    next
      case 2
      then obtain u v where "cs = u @ v" "u \<in> lang (deriv c r)"
        using Cons.IH [of "deriv c r"] by blast
      then have "c # cs = (c # u) @ v \<and> c # u \<in> lang r" by (simp add: deriv_lang)
      then show ?thesis by blast
    qed
  next
    assume "\<exists>u v. c # cs = u @ v \<and> u \<in> lang r"
    then obtain u v where uv: "c # cs = u @ v" "u \<in> lang r" by blast
    show "match_prefix r (c # cs)"
    proof (cases u)
      case Nil
      then have "nullable r" using uv by (simp add: nullable_lang)
      then show ?thesis by simp
    next
      case (Cons a u')
      then have "cs = u' @ v" "u' \<in> lang (deriv c r)" using uv by (auto simp: deriv_lang)
      then have "match_prefix (deriv c r) cs" using Cons.IH [of "deriv c r"] by blast
      then show ?thesis by simp
    qed
  qed
qed

lemma search_lang: "search r s \<longleftrightarrow> (\<exists>t u v. s = t @ u @ v \<and> u \<in> lang r)"
proof (induction s)
  case Nil
  then show ?case by (simp add: nullable_lang)
next
  case (Cons c cs)
  show ?case
  proof
    assume "search r (c # cs)"
    then consider "match_prefix r (c # cs)" | "search r cs" by auto
    then show "\<exists>t u v. c # cs = t @ u @ v \<and> u \<in> lang r"
    proof cases
      case 1
      then obtain u v where "c # cs = u @ v" "u \<in> lang r"
        using match_prefix_lang [of r "c # cs"] by blast
      then have "c # cs = [] @ u @ v \<and> u \<in> lang r" by simp
      then show ?thesis by blast
    next
      case 2
      then obtain t u v where "cs = t @ u @ v" "u \<in> lang r" using Cons by blast
      then have "c # cs = (c # t) @ u @ v \<and> u \<in> lang r" by simp
      then show ?thesis by blast
    qed
  next
    assume "\<exists>t u v. c # cs = t @ u @ v \<and> u \<in> lang r"
    then obtain t u v where tuv: "c # cs = t @ u @ v" "u \<in> lang r" by blast
    show "search r (c # cs)"
    proof (cases t)
      case Nil
      then have "\<exists>u' v'. c # cs = u' @ v' \<and> u' \<in> lang r" using tuv by auto
      then have "match_prefix r (c # cs)" by (simp only: match_prefix_lang)
      then show ?thesis by simp
    next
      case (Cons a t')
      then have "cs = t' @ u @ v" using tuv by simp
      then have "search r cs" using tuv Cons.IH by blast
      then show ?thesis by simp
    qed
  qed
qed

lemma lit_Cons: "lit (c # p) = Seq (Atom (ALit (of_char c))) (lit p)"
  by (simp add: lit_def)

lemma lang_ALit: "w \<in> lang (Atom (ALit c)) \<longleftrightarrow> (\<exists>d. w = [d] \<and> d \<in> set (fold_orbit c))"
  by simp

lemma lang_lit_Cons:
  "u \<in> lang (lit (c # p)) \<longleftrightarrow>
   (\<exists>d v. u = d # v \<and> d \<in> set (fold_orbit (of_char c)) \<and> v \<in> lang (lit p))"
proof
  assume "u \<in> lang (lit (c # p))"
  then obtain x v where "u = x @ v" "x \<in> lang (Atom (ALit (of_char c)))" "v \<in> lang (lit p)"
    unfolding lit_Cons lang_Seq by blast
  moreover then obtain d where "x = [d]" "d \<in> set (fold_orbit (of_char c))"
    unfolding lang_ALit by blast
  ultimately have "u = d # v \<and> d \<in> set (fold_orbit (of_char c)) \<and> v \<in> lang (lit p)"
    by simp
  then show "\<exists>d v. u = d # v \<and> d \<in> set (fold_orbit (of_char c)) \<and> v \<in> lang (lit p)"
    by blast
next
  assume "\<exists>d v. u = d # v \<and> d \<in> set (fold_orbit (of_char c)) \<and> v \<in> lang (lit p)"
  then obtain d v where dv: "u = d # v" "d \<in> set (fold_orbit (of_char c))" "v \<in> lang (lit p)"
    by blast
  have "[d] \<in> lang (Atom (ALit (of_char c)))"
    unfolding lang_ALit using dv by blast
  then have "[d] @ v \<in> lang (Seq (Atom (ALit (of_char c))) (lit p))"
    unfolding lang_Seq using dv by blast
  then show "u \<in> lang (lit (c # p))"
    unfolding lit_Cons using dv by simp
qed

lemma lang_lit:
  "u \<in> lang (lit p) \<longleftrightarrow> list_all2 (\<lambda>c d. d \<in> set (fold_orbit (of_char c))) p u"
proof (induction p arbitrary: u)
  case Nil
  then show ?case by (simp add: lit_def)
next
  case (Cons c p)
  show ?case
    unfolding lang_lit_Cons list_all2_Cons1 Cons.IH by blast
qed


lemma MatchString_phrase:
  "MatchString (unanchored (lit p)) s \<longleftrightarrow>
   (\<exists>t u v. s = t @ u @ v \<and> list_all2 (\<lambda>c d. d \<in> set (fold_orbit (of_char c))) p u)"
  by (simp add: MatchString_def unanchored_def search_lang lang_lit)

section \<open>Context overflow detection\<close>

lemma no_pattern_matches_empty:
  "\<not> list_ex (\<lambda>p. MatchString p []) overflowPatterns" "\<not> MatchString noBodyPattern []"
  by (simp_all add: overflowPatterns_def noBodyPattern_def MatchString_def unanchored_def
      lit_def Plus_def Opt_def)

lemma sless_add_no_overflow:
  fixes a b cw :: goint
  assumes "0 \<le> sint a" "0 \<le> sint b" "sint a + sint b < 2 ^ 63"
  shows "cw <s a + b \<longleftrightarrow> sint cw < sint a + sint b"
proof -
  have "sint (a + b) = signed_take_bit 63 (sint a + sint b)"
    by (simp add: sint_word_ariths(1))
  also have "\<dots> = sint a + sint b"
    using assms by (intro signed_take_bit_int_eq_self) simp_all
  finally show ?thesis by (simp add: word_sless_alt)
qed


lemmas StopReason_names = StopReasonStop_def StopReasonLength_def StopReasonToolUse_def
  StopReasonError_def StopReasonAborted_def

text \<open>
  C6. \<open>IsContextOverflow\<close> answers true exactly when the stop reason is \<open>error\<close> and
  the error text matches one of the overflow patterns (each compiled case-insensitively)
  or the bodyless 4xx pattern, or when the context window is positive, the stop reason is
  \<open>stop\<close> and \<open>usage.input + usage.cache_read\<close> exceeds the window. The guard on a
  non-empty error text changes nothing, since no pattern matches the empty text. The sum
  is Go's \<open>int\<close> sum and the comparisons are the signed ones; for token counts that are
  not negative and whose sum is below \<open>2^63\<close> this is the comparison of the integers
  (\<open>sless_add_no_overflow\<close>).
\<close>

theorem IsContextOverflow_iff:
  "IsContextOverflow msg contextWindow \<longleftrightarrow>
     (am_StopReason msg = StopReasonError
      \<and> ((\<exists>p \<in> set overflowPatterns. MatchString p (am_ErrorMessage msg))
         \<or> MatchString noBodyPattern (am_ErrorMessage msg)))
     \<or> (0 <s contextWindow \<and> am_StopReason msg = StopReasonStop
        \<and> contextWindow <s usage_Input (am_Usage msg) + usage_CacheRead (am_Usage msg))"
proof (cases "am_ErrorMessage msg = []")
  case True
  then show ?thesis
    using no_pattern_matches_empty
    by (auto simp: IsContextOverflow_def list_ex_iff Let_def)
next
  case False
  then show ?thesis
    by (auto simp: IsContextOverflow_def list_ex_iff Let_def)
qed


lemma prompt_too_long_matches: "list_ex (\<lambda>p. MatchString p (str ''400 Prompt is TOO long: 250000 tokens'')) overflowPatterns"
  by code_simp

lemma silent_overflow_numbers: "(0::goint) <s 200000 \<and> (200000::goint) <s 150000 + 60000"
  by (simp add: word_sless_alt)

text \<open>
  The theorem at three messages: an error whose text holds the first phrase in other
  letter case, a \<open>stop\<close> whose input and cache-read tokens exceed a window of 200000,
  and a \<open>length\<close> stop, for which neither the phrase nor the token count is looked at.
\<close>

theorem IsContextOverflow_iff_witness:
  "IsContextOverflow
     \<lparr>am_Role = RoleAssistant, am_Content = [], am_Api = [], am_Provider = [], am_Model = [],
      am_Usage = zero_Usage, am_StopReason = StopReasonError,
      am_ErrorMessage = str ''400 Prompt is TOO long: 250000 tokens'', am_Timestamp = 0\<rparr> 0
   \<and> IsContextOverflow
     \<lparr>am_Role = RoleAssistant, am_Content = [], am_Api = [], am_Provider = [], am_Model = [],
      am_Usage = zero_Usage\<lparr>usage_Input := 150000, usage_CacheRead := 60000\<rparr>,
      am_StopReason = StopReasonStop, am_ErrorMessage = [], am_Timestamp = 0\<rparr> 200000
   \<and> \<not> IsContextOverflow
     \<lparr>am_Role = RoleAssistant, am_Content = [], am_Api = [], am_Provider = [], am_Model = [],
      am_Usage = zero_Usage\<lparr>usage_Input := 150000, usage_CacheRead := 60000\<rparr>,
      am_StopReason = StopReasonLength, am_ErrorMessage = str ''prompt is too long'',
      am_Timestamp = 0\<rparr> 200000"
  unfolding IsContextOverflow_iff
  using prompt_too_long_matches silent_overflow_numbers by (simp add: StopReason_names zero_Usage_def list_ex_iff)


end
